theory Spec2Isabelle
  imports Main "HOL-Library.AList"
begin

section \<open>JavaScript values\<close>

text \<open>
  The Lambda event, the stored items and the response bodies are JSON data. A value is
  one of the JSON kinds, or \<open>undefined\<close> (what reading a missing property gives).
  Strings are sequences of code units below 256; numbers are the integer-valued ones.
  An object is the list of its own properties in insertion order (the place JavaScript
  gives to integer-like names is not modelled; the properties below read objects by name
  only).
\<close>

datatype jv =
    JUndefined
  | JNull
  | JBool bool
  | JNum int
  | JStr string
  | JArr "jv list"
  | JObj "(string \<times> jv) list"

type_synonym obj = "(string \<times> jv) list"

text \<open>A thrown \<open>Error\<close>: its \<open>name\<close> and its \<open>message\<close>.\<close>

datatype jserr = JsError (err_name: string) (err_message: string)

text \<open>\<open>!v\<close> is \<open>\<not> truthy v\<close>.\<close>

fun truthy :: "jv \<Rightarrow> bool" where
  "truthy JUndefined = False"
| "truthy JNull = False"
| "truthy (JBool b) = b"
| "truthy (JNum n) = (n \<noteq> 0)"
| "truthy (JStr s) = (s \<noteq> [])"
| "truthy (JArr xs) = True"
| "truthy (JObj kvs) = True"

text \<open>\<open>a || b\<close>.\<close>

definition js_or :: "jv \<Rightarrow> jv \<Rightarrow> jv" where
  "js_or a b = (if truthy a then a else b)"

fun is_JStr :: "jv \<Rightarrow> bool" where
  "is_JStr (JStr s) = True"
| "is_JStr v = False"

text \<open>\<open>ob.k\<close> on an object: the own property, or \<open>undefined\<close>.\<close>

definition obj_get :: "obj \<Rightarrow> string \<Rightarrow> jv" where
  "obj_get ob k = (case map_of ob k of None \<Rightarrow> JUndefined | Some v \<Rightarrow> v)"

text \<open>
  Defining a property in an object literal: an existing key keeps its place and takes the
  new value, a new key goes to the end.
\<close>

definition obj_set :: "('k \<times> 'v) list \<Rightarrow> 'k \<Rightarrow> 'v \<Rightarrow> ('k \<times> 'v) list" where
  "obj_set ob k v = AList.update k v ob"

text \<open>\<open>{...a, ...b}\<close>: the properties of \<open>b\<close> are defined, in order, on a copy of \<open>a\<close>.\<close>

definition obj_spread :: "('k \<times> 'v) list \<Rightarrow> ('k \<times> 'v) list \<Rightarrow> ('k \<times> 'v) list" where
  "obj_spread a b = fold (\<lambda>(k, v) acc. obj_set acc k v) b a"

text \<open>\<open>const { k1, k2, ...rest } = ob\<close> and \<open>delete rest.k\<close>: the object without these keys.\<close>

definition obj_omit :: "string list \<Rightarrow> obj \<Rightarrow> obj" where
  "obj_omit ks ob = filter (\<lambda>(k, v). k \<notin> set ks) ob"

section \<open>The platform: runtime, libraries and environment\<close>

text \<open>
  What the repository calls but does not define is a parameter of the model: the
  JSON codec, the conversions of the language on values that are not strings, the URL
  parser, bcrypt, the clock, the identifier and key generators, the failures of the
  parameter store, and the two environment variables naming parameters. Theorems hold
  for every platform. The sources of time, identifiers, salts and keys are sequences;
  the world counts how many of each were drawn.
\<close>

record platform =
  json_stringify :: "jv \<Rightarrow> string"
  json_parse :: "string \<Rightarrow> jserr + jv"
  to_string_other :: "jv \<Rightarrow> jserr + string"
  length_lt_other :: "jv \<Rightarrow> nat \<Rightarrow> jserr + bool"
  url_protocol :: "string \<Rightarrow> string option"
  bcrypt_hash :: "string \<Rightarrow> nat \<Rightarrow> string \<Rightarrow> string"
  bcrypt_compare :: "string \<Rightarrow> string \<Rightarrow> bool"
  toISOString :: "int \<Rightarrow> string"
  clock :: "nat \<Rightarrow> int"
  uuid_src :: "nat \<Rightarrow> string"
  salt_src :: "nat \<Rightarrow> string"
  keygen_src :: "nat \<Rightarrow> jserr + (string \<times> string)"
  ssm_fault :: "nat \<Rightarrow> jserr option"
  ssm_not_found_message :: string
  ISSUER_URL_PARAM_NAME :: string
  JWT_KEYS_PARAM_NAME :: string

text \<open>
  \<open>String(v)\<close>, as a template literal, \<open>RegExp.test\<close> and \<open>new URL\<close> apply it: a
  string is itself; any other value is converted by the runtime, which may throw.
\<close>

definition to_string :: "platform \<Rightarrow> jv \<Rightarrow> jserr + string" where
  "to_string R v = (case v of JStr s \<Rightarrow> Inr s | _ \<Rightarrow> to_string_other R v)"

text \<open>\<open>v.length < n\<close>: on a string the number of code units decides.\<close>

definition length_lt :: "platform \<Rightarrow> jv \<Rightarrow> nat \<Rightarrow> jserr + bool" where
  "length_lt R v n = (case v of JStr s \<Rightarrow> Inr (length s < n) | _ \<Rightarrow> length_lt_other R v n)"

section \<open>The world: tables, parameters, module state\<close>

datatype table = Users | Clients | AuthCodes | RefreshTokens | Applications | UserApplications

text \<open>
  The primary key of each table, as the \<open>Key\<close> objects of the \<open>getItem\<close> calls name
  it (\<open>user_applications\<close>: partition key \<open>user_id\<close>, sort key \<open>application_id\<close>).
\<close>

fun key_schema :: "table \<Rightarrow> string list" where
  "key_schema Users = [''user_id'']"
| "key_schema Clients = [''client_id'']"
| "key_schema AuthCodes = [''code'']"
| "key_schema RefreshTokens = [''token_id'']"
| "key_schema Applications = [''application_id'']"
| "key_schema UserApplications = [''user_id'', ''application_id'']"

datatype db_cmd =
    GetCommand table obj
  | PutCommand table obj
  | QueryCommand table string string jv
  | DeleteCommand table obj

datatype ssm_cmd =
    GetParameterCommand string bool
  | PutParameterCommand string string string bool

record keygen_req =
  key_type :: string
  modulusLength :: nat
  publicKeyEncoding :: "string \<times> string"
  privateKeyEncoding :: "string \<times> string"

text \<open>
  \<open>tables\<close> are the rows of each table; \<open>ssm_params\<close> the parameter store. The three
  logs record every command sent to the key-value store, to the parameter store and to
  the key generator. \<open>cachedIssuerUrl\<close> and \<open>cacheTimestamp\<close> are the module-level
  variables of the helper module (\<open>None\<close> is \<open>null\<close>).
\<close>

record world =
  tables :: "table \<Rightarrow> obj list"
  db_log :: "db_cmd list"
  ssm_params :: "string \<Rightarrow> string option"
  ssm_log :: "ssm_cmd list"
  keygen_log :: "keygen_req list"
  cachedIssuerUrl :: "string option"
  cacheTimestamp :: "int option"
  clock_reads :: nat
  uuid_reads :: nat
  salt_reads :: nat

section \<open>Effects: a result or a thrown error, and the next world\<close>

type_synonym 'a eff = "world \<Rightarrow> (jserr + 'a) \<times> world"

definition ret :: "'a \<Rightarrow> 'a eff" where
  "ret x = (\<lambda>w. (Inr x, w))"

definition throw :: "jserr \<Rightarrow> 'a eff" where
  "throw e = (\<lambda>w. (Inl e, w))"

text \<open>\<open>await m\<close>, then the rest of the function; a thrown error skips the rest.\<close>

definition bind :: "'a eff \<Rightarrow> ('a \<Rightarrow> 'b eff) \<Rightarrow> 'b eff" where
  "bind m f = (\<lambda>w. case m w of (Inl e, w') \<Rightarrow> (Inl e, w') | (Inr x, w') \<Rightarrow> f x w')"

definition lift :: "jserr + 'a \<Rightarrow> 'a eff" where
  "lift r = (case r of Inl e \<Rightarrow> throw e | Inr x \<Rightarrow> ret x)"

text \<open>\<open>Date.now()\<close>, \<open>new Date().toISOString()\<close> and \<open>uuidv4()\<close>.\<close>

definition date_now :: "platform \<Rightarrow> int eff" where
  "date_now R = (\<lambda>w. (Inr (clock R (clock_reads w)), w\<lparr>clock_reads := Suc (clock_reads w)\<rparr>))"

definition new_date_iso :: "platform \<Rightarrow> string eff" where
  "new_date_iso R = bind (date_now R) (\<lambda>t. ret (toISOString R t))"

definition uuidv4 :: "platform \<Rightarrow> string eff" where
  "uuidv4 R = (\<lambda>w. (Inr (uuid_src R (uuid_reads w)), w\<lparr>uuid_reads := Suc (uuid_reads w)\<rparr>))"

subsection \<open>The parameter store\<close>

text \<open>
  A command is logged, then fails if the platform says this call fails; reading a
  parameter that is not there fails with \<open>ParameterNotFound\<close>.
\<close>

definition ssm_get :: "platform \<Rightarrow> string \<Rightarrow> bool \<Rightarrow> string eff" where
  "ssm_get R name decrypt = (\<lambda>w.
     let w1 = w\<lparr>ssm_log := ssm_log w @ [GetParameterCommand name decrypt]\<rparr> in
     case ssm_fault R (length (ssm_log w)) of
       Some e \<Rightarrow> (Inl e, w1)
     | None \<Rightarrow>
        (case ssm_params w name of
           None \<Rightarrow> (Inl (JsError ''ParameterNotFound'' (ssm_not_found_message R)), w1)
         | Some v \<Rightarrow> (Inr v, w1)))"

definition ssm_put :: "platform \<Rightarrow> string \<Rightarrow> string \<Rightarrow> string \<Rightarrow> bool \<Rightarrow> unit eff" where
  "ssm_put R name v ty overwrite = (\<lambda>w.
     let w1 = w\<lparr>ssm_log := ssm_log w @ [PutParameterCommand name v ty overwrite]\<rparr> in
     case ssm_fault R (length (ssm_log w)) of
       Some e \<Rightarrow> (Inl e, w1)
     | None \<Rightarrow> (Inr (), w1\<lparr>ssm_params := (ssm_params w)(name \<mapsto> v)\<rparr>))"

subsection \<open>The key-value store\<close>

text \<open>A row has the key when it holds each attribute of the key with that value.\<close>

definition matches_key :: "obj \<Rightarrow> obj \<Rightarrow> bool" where
  "matches_key k row = list_all (\<lambda>(a, v). map_of row a = Some v) k"

definition key_of :: "table \<Rightarrow> obj \<Rightarrow> obj" where
  "key_of t item = map (\<lambda>a. (a, obj_get item a)) (key_schema t)"

text \<open>A put overwrites the row with the item's key, or adds the item.\<close>

definition put_rows :: "table \<Rightarrow> obj \<Rightarrow> obj list \<Rightarrow> obj list" where
  "put_rows t item rows =
     (if list_ex (matches_key (key_of t item)) rows
      then map (\<lambda>r. if matches_key (key_of t item) r then item else r) rows
      else rows @ [item])"

definition getItem :: "table \<Rightarrow> obj \<Rightarrow> obj option eff" where
  "getItem t k = (\<lambda>w.
     (Inr (find (matches_key k) (tables w t)), w\<lparr>db_log := db_log w @ [GetCommand t k]\<rparr>))"

definition putItem :: "table \<Rightarrow> obj \<Rightarrow> unit eff" where
  "putItem t item = (\<lambda>w.
     (Inr (), w\<lparr>tables := (tables w)(t := put_rows t item (tables w t)),
                db_log := db_log w @ [PutCommand t item]\<rparr>))"

text \<open>
  The one query of the repository has the key condition \<open>attr = :value\<close> on an index:
  the rows holding that attribute with that value, in the order of the table.
\<close>

definition queryItems :: "table \<Rightarrow> string \<Rightarrow> string \<Rightarrow> jv \<Rightarrow> obj list eff" where
  "queryItems t index a v = (\<lambda>w.
     (Inr (filter (\<lambda>row. map_of row a = Some v) (tables w t)),
      w\<lparr>db_log := db_log w @ [QueryCommand t index a v]\<rparr>))"

fun is_write :: "db_cmd \<Rightarrow> bool" where
  "is_write (PutCommand t item) = True"
| "is_write (DeleteCommand t k) = True"
| "is_write c = False"

section \<open>The helper module\<close>

subsection \<open>Issuer URL, cached for five minutes\<close>

definition CACHE_TTL_MS :: int where
  "CACHE_TTL_MS = 5 * 60 * 1000"

text \<open>
  The guard \<open>cachedIssuerUrl && cacheTimestamp && (now - cacheTimestamp) < CACHE_TTL_MS\<close>:
  the cached value when the guard holds. The empty string and the number zero are falsy.
\<close>

definition cache_hit :: "world \<Rightarrow> int \<Rightarrow> string option" where
  "cache_hit w now =
     (case cachedIssuerUrl w of
        None \<Rightarrow> None
      | Some url \<Rightarrow>
         (case cacheTimestamp w of
            None \<Rightarrow> None
          | Some ts \<Rightarrow>
             if url \<noteq> [] \<and> ts \<noteq> 0 \<and> now - ts < CACHE_TTL_MS then Some url else None))"

definition issuer_error :: "jserr \<Rightarrow> jserr" where
  "issuer_error e =
     (if err_name e = ''ParameterNotFound''
      then JsError ''Error'' ''OIDC issuer URL parameter not found in SSM''
      else if err_name e = ''AccessDeniedException''
      then JsError ''Error'' ''Access denied to OIDC issuer URL parameter''
      else JsError ''Error'' (''Failed to retrieve OIDC issuer URL: '' @ err_message e))"

definition getIssuerUrl :: "platform \<Rightarrow> string eff" where
  "getIssuerUrl R = bind (date_now R) (\<lambda>now w.
     case cache_hit w now of
       Some url \<Rightarrow> (Inr url, w)
     | None \<Rightarrow>
        (case ssm_get R (ISSUER_URL_PARAM_NAME R) False w of
           (Inr v, w1) \<Rightarrow> (Inr v, w1\<lparr>cachedIssuerUrl := Some v, cacheTimestamp := Some now\<rparr>)
         | (Inl e, w1) \<Rightarrow> (Inl (issuer_error e), w1)))"

subsection \<open>Signing keys\<close>

definition rsa_request :: keygen_req where
  "rsa_request = \<lparr>key_type = ''rsa'', modulusLength = 2048,
     publicKeyEncoding = (''spki'', ''pem''), privateKeyEncoding = (''pkcs8'', ''pem'')\<rparr>"

text \<open>The generator answers with the pair (public key, private key), or fails.\<close>

definition generateKeyPair :: "platform \<Rightarrow> (string \<times> string) eff" where
  "generateKeyPair R = (\<lambda>w.
     (keygen_src R (length (keygen_log w)), w\<lparr>keygen_log := keygen_log w @ [rsa_request]\<rparr>))"

text \<open>
  \<open>keys.k\<close> on the parsed parameter: reading a property of \<open>null\<close> throws; a value that
  is not an object has no property of these names.
\<close>

definition get_member :: "jv \<Rightarrow> string \<Rightarrow> jserr + jv" where
  "get_member v k =
     (case v of
        JObj kvs \<Rightarrow> Inr (obj_get kvs k)
      | JNull \<Rightarrow> Inl (JsError ''TypeError''
          (''Cannot read properties of null (reading '' @ [CHR 0x27] @ k @ [CHR 0x27] @ '')''))
      | JUndefined \<Rightarrow> Inl (JsError ''TypeError''
          (''Cannot read properties of undefined (reading '' @ [CHR 0x27] @ k @ [CHR 0x27] @ '')''))
      | _ \<Rightarrow> Inr JUndefined)"

definition digit_char :: "nat \<Rightarrow> char" where
  "digit_char d = char_of (48 + d)"

function show_nat :: "nat \<Rightarrow> string" where
  "show_nat n = (if n < 10 then [digit_char n] else show_nat (n div 10) @ [digit_char (n mod 10)])"
  by pat_completeness auto
termination
  by (relation "measure (\<lambda>n. n)") auto

definition new_keys :: "string \<Rightarrow> string \<Rightarrow> string \<Rightarrow> obj" where
  "new_keys privateKey publicKey kid =
     [(''private_key'', JStr privateKey), (''public_key'', JStr publicKey),
      (''kid'', JStr kid), (''alg'', JStr ''RS256'')]"

definition getSigningKeys :: "platform \<Rightarrow> jv eff" where
  "getSigningKeys R =
     bind (ssm_get R (JWT_KEYS_PARAM_NAME R) True) (\<lambda>v.
     bind (lift (json_parse R v)) (\<lambda>keys.
     bind (lift (get_member keys ''private_key'')) (\<lambda>private_key.
     bind (if \<not> truthy private_key then ret JUndefined
           else lift (get_member keys ''public_key'')) (\<lambda>public_key.
       if \<not> truthy private_key \<or> \<not> truthy public_key then
         bind (generateKeyPair R) (\<lambda>(publicKey, privateKey).
         bind (uuidv4 R) (\<lambda>kid.
           let newKeys = new_keys privateKey publicKey kid;
               keysJson = json_stringify R (JObj newKeys)
           in if length keysJson > 4096
              then throw (JsError ''Error'' (''JWT keys too large for SSM parameter: ''
                            @ show_nat (length keysJson) @ '' bytes (max 4096)''))
              else bind (ssm_put R (JWT_KEYS_PARAM_NAME R) keysJson ''SecureString'' True)
                     (\<lambda>_. ret (JObj newKeys))))
       else ret keys))))"

subsection \<open>Users\<close>

definition getUserById :: "jv \<Rightarrow> obj option eff" where
  "getUserById userId = getItem Users [(''user_id'', userId)]"

definition getUserByUsername :: "jv \<Rightarrow> obj option eff" where
  "getUserByUsername username =
     bind (queryItems Users ''username-index'' ''username'' username) (\<lambda>items.
       ret (case items of [] \<Rightarrow> None | item # _ \<Rightarrow> Some item))"

text \<open>
  \<open>bcrypt.hash(data, rounds)\<close> draws a salt; \<open>bcrypt.compare(data, hash)\<close>. Both reject
  arguments that are not strings.
\<close>

definition bcrypt_hash_eff :: "platform \<Rightarrow> jv \<Rightarrow> nat \<Rightarrow> string eff" where
  "bcrypt_hash_eff R data rounds =
     (case data of
        JStr s \<Rightarrow> (\<lambda>w. (Inr (bcrypt_hash R s rounds (salt_src R (salt_reads w))),
                        w\<lparr>salt_reads := Suc (salt_reads w)\<rparr>))
      | JUndefined \<Rightarrow> throw (JsError ''Error'' ''data and salt arguments required'')
      | JNull \<Rightarrow> throw (JsError ''Error'' ''data and salt arguments required'')
      | _ \<Rightarrow> throw (JsError ''Error''
          ''data must be a string or Buffer and salt must either be a salt string or a number of rounds''))"


text \<open>The record a new user is stored as; \<open>createUser\<close> has three parameters.\<close>

definition user_record :: "string \<Rightarrow> jv \<Rightarrow> string \<Rightarrow> jv \<Rightarrow> string \<Rightarrow> string \<Rightarrow> obj" where
  "user_record userId username passwordHash email created updated =
     [(''user_id'', JStr userId), (''username'', username), (''password_hash'', JStr passwordHash),
      (''email'', email), (''email_verified'', JBool False),
      (''created_at'', JStr created), (''updated_at'', JStr updated)]"

definition createUser :: "platform \<Rightarrow> jv \<Rightarrow> jv \<Rightarrow> jv \<Rightarrow> obj eff" where
  "createUser R username password email =
     bind (uuidv4 R) (\<lambda>userId.
     bind (bcrypt_hash_eff R password 10) (\<lambda>passwordHash.
     bind (new_date_iso R) (\<lambda>created.
     bind (new_date_iso R) (\<lambda>updated.
       let user = user_record userId username passwordHash email created updated
       in bind (putItem Users user) (\<lambda>_. ret user)))))"


definition updateUserPassword :: "platform \<Rightarrow> jv \<Rightarrow> jv \<Rightarrow> obj option eff" where
  "updateUserPassword R userId newPassword =
     bind (getUserById userId) (\<lambda>found.
       case found of
         None \<Rightarrow> ret None
       | Some user \<Rightarrow>
          bind (bcrypt_hash_eff R newPassword 10) (\<lambda>passwordHash.
          bind (new_date_iso R) (\<lambda>updated.
            let user' = obj_set (obj_set user ''password_hash'' (JStr passwordHash))
                          ''updated_at'' (JStr updated)
            in bind (putItem Users user') (\<lambda>_. ret (Some user')))))"

subsection \<open>Responses\<close>

record response =
  statusCode :: int
  headers :: "(string \<times> string) list"
  body :: string

definition createResponse :: "platform \<Rightarrow> int \<Rightarrow> jv \<Rightarrow> (string \<times> string) list \<Rightarrow> response" where
  "createResponse R code b hdrs =
     \<lparr>statusCode = code,
      headers = obj_spread
        [(''Content-Type'', ''application/json''),
         (''Access-Control-Allow-Origin'', ''*''),
         (''Access-Control-Allow-Headers'', ''Content-Type,Authorization''),
         (''Access-Control-Allow-Methods'', ''GET,POST,OPTIONS'')] hdrs,
      body = json_stringify R b\<rparr>"

definition createErrorResponse :: "platform \<Rightarrow> string \<Rightarrow> string \<Rightarrow> int \<Rightarrow> response" where
  "createErrorResponse R error description code =
     createResponse R code
       (JObj [(''error'', JStr error), (''error_description'', JStr description)]) []"

subsection \<open>Clients, applications, user-application mappings\<close>

text \<open>A parameter with a default takes it when the argument is \<open>undefined\<close>.\<close>

definition js_default :: "jv \<Rightarrow> jv \<Rightarrow> jv" where
  "js_default v d = (if v = JUndefined then d else v)"

definition getClientById :: "jv \<Rightarrow> obj option eff" where
  "getClientById clientId = getItem Clients [(''client_id'', clientId)]"

definition createClient :: "platform \<Rightarrow> jv \<Rightarrow> jv \<Rightarrow> jv \<Rightarrow> jv \<Rightarrow> jv \<Rightarrow> obj eff" where
  "createClient R clientId clientSecret redirectUris name description =
     bind (new_date_iso R) (\<lambda>created.
     bind (new_date_iso R) (\<lambda>updated.
       let client = [(''client_id'', clientId), (''client_secret'', clientSecret),
                     (''redirect_uris'', redirectUris), (''name'', name),
                     (''description'', js_default description (JStr [])),
                     (''created_at'', JStr created), (''updated_at'', JStr updated)]
       in bind (putItem Clients client) (\<lambda>_. ret client)))"

definition updateClient :: "platform \<Rightarrow> jv \<Rightarrow> obj \<Rightarrow> obj eff" where
  "updateClient R clientId updates =
     bind (getClientById clientId) (\<lambda>found.
       case found of
         None \<Rightarrow> throw (JsError ''Error'' ''Client not found'')
       | Some client \<Rightarrow>
          bind (new_date_iso R) (\<lambda>updated.
            let updatedClient =
                  obj_set (obj_set (obj_spread client updates) ''client_id'' clientId)
                    ''updated_at'' (JStr updated)
            in bind (putItem Clients updatedClient) (\<lambda>_. ret updatedClient)))"

definition getApplicationById :: "jv \<Rightarrow> obj option eff" where
  "getApplicationById applicationId = getItem Applications [(''application_id'', applicationId)]"

definition createApplication :: "platform \<Rightarrow> jv \<Rightarrow> jv \<Rightarrow> jv \<Rightarrow> jv \<Rightarrow> jv \<Rightarrow> obj eff" where
  "createApplication R applicationId clientId name description account =
     bind (if truthy applicationId then ret applicationId
           else bind (uuidv4 R) (\<lambda>u. ret (JStr u))) (\<lambda>appId.
     bind (new_date_iso R) (\<lambda>created.
     bind (new_date_iso R) (\<lambda>updated.
       let application = [(''application_id'', appId), (''client_id'', clientId), (''name'', name),
                          (''description'', js_default description (JStr [])),
                          (''account'', js_default account (JStr [])),
                          (''created_at'', JStr created), (''updated_at'', JStr updated)]
       in bind (putItem Applications application) (\<lambda>_. ret application))))"

definition updateApplication :: "platform \<Rightarrow> jv \<Rightarrow> obj \<Rightarrow> obj eff" where
  "updateApplication R applicationId updates =
     bind (getApplicationById applicationId) (\<lambda>found.
       case found of
         None \<Rightarrow> throw (JsError ''Error'' ''Application not found'')
       | Some application \<Rightarrow>
          bind (new_date_iso R) (\<lambda>updated.
            let updatedApplication =
                  obj_set (obj_set (obj_spread application updates) ''application_id'' applicationId)
                    ''updated_at'' (JStr updated)
            in bind (putItem Applications updatedApplication) (\<lambda>_. ret updatedApplication)))"

definition getUserApplication :: "jv \<Rightarrow> jv \<Rightarrow> obj option eff" where
  "getUserApplication userId applicationId =
     getItem UserApplications [(''user_id'', userId), (''application_id'', applicationId)]"

definition createUserApplication :: "platform \<Rightarrow> jv \<Rightarrow> jv \<Rightarrow> jv \<Rightarrow> obj eff" where
  "createUserApplication R userId applicationId account =
     bind (new_date_iso R) (\<lambda>created.
     bind (new_date_iso R) (\<lambda>updated.
       let userApplication = [(''user_id'', userId), (''application_id'', applicationId),
                              (''account'', js_default account (JStr [])),
                              (''created_at'', JStr created), (''updated_at'', JStr updated)]
       in bind (putItem UserApplications userApplication) (\<lambda>_. ret userApplication)))"

definition updateUserApplication :: "platform \<Rightarrow> jv \<Rightarrow> jv \<Rightarrow> obj \<Rightarrow> obj eff" where
  "updateUserApplication R userId applicationId updates =
     bind (getUserApplication userId applicationId) (\<lambda>found.
       case found of
         None \<Rightarrow> throw (JsError ''Error'' ''User-application mapping not found'')
       | Some userApplication \<Rightarrow>
          bind (new_date_iso R) (\<lambda>updated.
            let updatedUserApplication =
                  obj_set (obj_set (obj_set (obj_spread userApplication updates)
                    ''user_id'' userId) ''application_id'' applicationId)
                    ''updated_at'' (JStr updated)
            in bind (putItem UserApplications updatedUserApplication)
                 (\<lambda>_. ret updatedUserApplication)))"

section \<open>The management handlers\<close>

subsection \<open>Validation\<close>

text \<open>\<open>/^[a-zA-Z0-9_-]{lo,hi}$/\<close> on a string.\<close>

definition ident_char :: "char \<Rightarrow> bool" where
  "ident_char c =
     (let n = (of_char c :: nat)
      in (97 \<le> n \<and> n \<le> 122) \<or> (65 \<le> n \<and> n \<le> 90) \<or> (48 \<le> n \<and> n \<le> 57)
         \<or> c = CHR ''_'' \<or> c = CHR ''-'')"

definition ident_ok :: "nat \<Rightarrow> nat \<Rightarrow> string \<Rightarrow> bool" where
  "ident_ok lo hi s = (lo \<le> length s \<and> length s \<le> hi \<and> list_all ident_char s)"

text \<open>
  \<open>/^[^\s@]+@[^\s@]+\.[^\s@]+$/\<close> on a string: no white space, one \<open>@\<close> with text before
  it, and after it a dot with text on both sides. White space below 256 is tab, line
  feed, vertical tab, form feed, carriage return, space and the no-break space.
\<close>

definition is_space :: "char \<Rightarrow> bool" where
  "is_space c = ((of_char c :: nat) \<in> {9, 10, 11, 12, 13, 32, 160})"

definition email_ok :: "string \<Rightarrow> bool" where
  "email_ok s =
     (let local = takeWhile (\<lambda>c. c \<noteq> CHR ''@'') s;
          domain = drop (Suc (length local)) s
      in local \<noteq> [] \<and> length local < length s \<and> CHR ''@'' \<notin> set domain
         \<and> list_all (\<lambda>c. \<not> is_space c) s
         \<and> CHR ''.'' \<in> set (butlast (tl domain)))"

text \<open>\<open>regex.test(v)\<close>: the value is converted to a string first.\<close>

definition regex_test :: "platform \<Rightarrow> (string \<Rightarrow> bool) \<Rightarrow> jv \<Rightarrow> jserr + bool" where
  "regex_test R p v = (case to_string R v of Inl e \<Rightarrow> Inl e | Inr s \<Rightarrow> Inr (p s))"

definition invalid_request :: "platform \<Rightarrow> string \<Rightarrow> response" where
  "invalid_request R description = createErrorResponse R ''invalid_request'' description 400"

text \<open>
  The loop over the redirect URIs: \<open>Some\<close> response when one is refused. An URI that
  cannot be converted to a string throws again inside the \<open>catch\<close> block's message.
\<close>

fun validate_uris :: "platform \<Rightarrow> jv list \<Rightarrow> jserr + response option" where
  "validate_uris R [] = Inr None"
| "validate_uris R (uri # rest) =
     (case to_string R uri of
        Inl e \<Rightarrow> Inl e
      | Inr s \<Rightarrow>
         (case url_protocol R s of
            None \<Rightarrow> Inr (Some (invalid_request R (''Invalid redirect URI format: '' @ s)))
          | Some protocol \<Rightarrow>
             if protocol \<noteq> ''https:'' \<and> protocol \<noteq> ''http:''
             then Inr (Some (invalid_request R
                    (''Invalid redirect URI protocol: '' @ s @ ''. Must use http or https'')))
             else validate_uris R rest))"

text \<open>
  \<open>!Array.isArray(v) || v.length === 0\<close> and then the loop: the response to return, if
  any.
\<close>

definition check_redirect_uris :: "platform \<Rightarrow> jv \<Rightarrow> jserr + response option" where
  "check_redirect_uris R v =
     (case v of
        JArr uris \<Rightarrow>
          if uris = []
          then Inr (Some (invalid_request R ''redirect_uris must be a non-empty array of URLs''))
          else validate_uris R uris
      | _ \<Rightarrow> Inr (Some (invalid_request R ''redirect_uris must be a non-empty array of URLs'')))"

subsection \<open>The handler's frame\<close>

text \<open>
  \<open>const { operation } = event\<close>: destructuring \<open>null\<close> throws; a value that is not an
  object has none of the properties the handlers read. The functions \<open>handle...\<close> are
  reached only with an event that has an \<open>operation\<close>, so they take its properties.
\<close>

definition destructure :: "jv \<Rightarrow> jserr + obj" where
  "destructure event =
     (case event of
        JObj kvs \<Rightarrow> Inr kvs
      | JNull \<Rightarrow> Inl (JsError ''TypeError''
          ''Cannot destructure property 'operation' of 'event' as it is null.'')
      | JUndefined \<Rightarrow> Inl (JsError ''TypeError''
          ''Cannot destructure property 'operation' of 'event' as it is undefined.'')
      | _ \<Rightarrow> Inr [])"

text \<open>\<open>try { ... } catch (error) { return 500 }\<close> around the whole handler.\<close>

definition catch_all :: "platform \<Rightarrow> response eff \<Rightarrow> world \<Rightarrow> response \<times> world" where
  "catch_all R m w =
     (case m w of
        (Inr r, w') \<Rightarrow> (r, w')
      | (Inl e, w') \<Rightarrow>
          (createErrorResponse R ''server_error''
             (''Internal server error: '' @ err_message e) 500, w'))"

subsection \<open>Users\<close>

definition handleCreateUser :: "platform \<Rightarrow> obj \<Rightarrow> response eff" where
  "handleCreateUser R event =
     (let username = obj_get event ''username''; password = obj_get event ''password'';
          email = obj_get event ''email''; profile = obj_get event ''profile''
      in if \<not> truthy username \<or> \<not> truthy password \<or> \<not> truthy email
         then ret (invalid_request R
           ''Missing required parameters: username, password, and email are required'')
         else
         bind (lift (regex_test R (ident_ok 3 50) username)) (\<lambda>username_fits.
         if \<not> username_fits
         then ret (invalid_request R
           ''Invalid username format. Username must be 3-50 characters and contain only letters, numbers, dashes, and underscores'')
         else
         bind (lift (regex_test R email_ok email)) (\<lambda>email_fits.
         if \<not> email_fits then ret (invalid_request R ''Invalid email format'')
         else
         bind (lift (length_lt R password 8)) (\<lambda>too_short.
         if too_short
         then ret (invalid_request R ''Password must be at least 8 characters long'')
         else
         bind (getUserByUsername username) (\<lambda>existingUser.
         if existingUser \<noteq> None then ret (invalid_request R ''Username already exists'')
         else
         let fourth_argument = js_or profile (JObj []) in
         bind (createUser R username password email) (\<lambda>user.
           ret (createResponse R 200
             (JObj [(''message'', JStr ''User created successfully''),
                    (''user'', JObj (obj_omit [''password_hash''] user))]) [])))))))"

definition handleResetPassword :: "platform \<Rightarrow> obj \<Rightarrow> response eff" where
  "handleResetPassword R event =
     (let username = obj_get event ''username''; newPassword = obj_get event ''newPassword''
      in if \<not> truthy username \<or> \<not> truthy newPassword
         then ret (invalid_request R
           ''Missing required parameters: username and newPassword are required'')
         else
         bind (lift (length_lt R newPassword 8)) (\<lambda>too_short.
         if too_short
         then ret (invalid_request R ''Password must be at least 8 characters long'')
         else
         bind (getUserByUsername username) (\<lambda>found.
         case found of
           None \<Rightarrow> ret (invalid_request R ''User not found'')
         | Some user \<Rightarrow>
            bind (updateUserPassword R (obj_get user ''user_id'') newPassword) (\<lambda>_.
              ret (createResponse R 200
                (JObj [(''message'', JStr ''Password reset successfully''),
                       (''username'', username)]) [])))))"

definition management_user_handler :: "platform \<Rightarrow> jv \<Rightarrow> world \<Rightarrow> response \<times> world" where
  "management_user_handler R event =
     catch_all R
       (bind (lift (destructure event)) (\<lambda>ev.
          let operation = obj_get ev ''operation''
          in if \<not> truthy operation
             then ret (invalid_request R
               ''Missing operation parameter. Valid operations: createUser, resetPassword'')
             else if operation = JStr ''createUser'' then handleCreateUser R ev
             else if operation = JStr ''resetPassword'' then handleResetPassword R ev
             else bind (lift (to_string R operation)) (\<lambda>s.
               ret (invalid_request R (''Unknown operation: '' @ s
                 @ ''. Valid operations: createUser, resetPassword'')))))"

subsection \<open>Clients\<close>

definition handleCreateClient :: "platform \<Rightarrow> obj \<Rightarrow> response eff" where
  "handleCreateClient R event =
     (let client_id = obj_get event ''client_id''; client_secret = obj_get event ''client_secret'';
          redirect_uris = obj_get event ''redirect_uris''; name = obj_get event ''name'';
          description = obj_get event ''description''
      in if \<not> truthy client_id \<or> \<not> truthy client_secret \<or> \<not> truthy redirect_uris
            \<or> \<not> truthy name
         then ret (invalid_request R
           ''Missing required parameters: client_id, client_secret, redirect_uris, and name are required'')
         else
         bind (lift (regex_test R (ident_ok 3 100) client_id)) (\<lambda>id_fits.
         if \<not> id_fits
         then ret (invalid_request R
           ''Invalid client_id format. Must be 3-100 characters and contain only letters, numbers, dashes, and underscores'')
         else
         bind (lift (check_redirect_uris R redirect_uris)) (\<lambda>refusal.
         case refusal of
           Some r \<Rightarrow> ret r
         | None \<Rightarrow>
            bind (getClientById client_id) (\<lambda>existingClient.
            if existingClient \<noteq> None then ret (invalid_request R ''Client ID already exists'')
            else
            bind (createClient R client_id client_secret redirect_uris name
                    (js_or description (JStr []))) (\<lambda>client.
              ret (createResponse R 200
                (JObj [(''message'', JStr ''Client created successfully''),
                       (''client'', JObj client)]) []))))))"

definition handleUpdateClient :: "platform \<Rightarrow> obj \<Rightarrow> response eff" where
  "handleUpdateClient R event =
     (let client_id = obj_get event ''client_id'';
          updates = obj_omit [''operation''] (obj_omit [''client_id''] event)
      in if \<not> truthy client_id
         then ret (invalid_request R ''Missing required parameter: client_id'')
         else if updates = []
         then ret (invalid_request R ''No update parameters provided'')
         else
         bind (if truthy (obj_get updates ''redirect_uris'')
               then lift (check_redirect_uris R (obj_get updates ''redirect_uris''))
               else ret None) (\<lambda>refusal.
         case refusal of
           Some r \<Rightarrow> ret r
         | None \<Rightarrow>
            bind (getClientById client_id) (\<lambda>existingClient.
            if existingClient = None then ret (invalid_request R ''Client not found'')
            else
            bind (updateClient R client_id updates) (\<lambda>updatedClient.
              ret (createResponse R 200
                (JObj [(''message'', JStr ''Client updated successfully''),
                       (''client'', JObj updatedClient)]) [])))))"

definition management_client_handler :: "platform \<Rightarrow> jv \<Rightarrow> world \<Rightarrow> response \<times> world" where
  "management_client_handler R event =
     catch_all R
       (bind (lift (destructure event)) (\<lambda>ev.
          let operation = obj_get ev ''operation''
          in if \<not> truthy operation
             then ret (invalid_request R
               ''Missing operation parameter. Valid operations: createClient, updateClient'')
             else if operation = JStr ''createClient'' then handleCreateClient R ev
             else if operation = JStr ''updateClient'' then handleUpdateClient R ev
             else bind (lift (to_string R operation)) (\<lambda>s.
               ret (invalid_request R (''Unknown operation: '' @ s
                 @ ''. Valid operations: createClient, updateClient'')))))"

subsection \<open>Applications\<close>

definition handleCreateApplication :: "platform \<Rightarrow> obj \<Rightarrow> response eff" where
  "handleCreateApplication R event =
     (let application_id = obj_get event ''application_id''; client_id = obj_get event ''client_id'';
          name = obj_get event ''name''; description = obj_get event ''description'';
          account = obj_get event ''account''
      in if \<not> truthy client_id \<or> \<not> truthy name
         then ret (invalid_request R
           ''Missing required parameters: client_id and name are required'')
         else
         bind (if truthy application_id
               then lift (regex_test R (ident_ok 3 100) application_id)
               else ret True) (\<lambda>id_fits.
         if truthy application_id \<and> \<not> id_fits
         then ret (invalid_request R
           ''Invalid application_id format. Must be 3-100 characters and contain only letters, numbers, dashes, and underscores'')
         else
         bind (getClientById client_id) (\<lambda>existingClient.
         if existingClient = None
         then ret (invalid_request R ''Client ID not found. Please create the client first'')
         else
         bind (if truthy application_id then getApplicationById application_id
               else ret None) (\<lambda>existingApplication.
         if truthy application_id \<and> existingApplication \<noteq> None
         then ret (invalid_request R ''Application ID already exists'')
         else
         bind (createApplication R (js_or application_id JNull) client_id name
                 (js_or description (JStr [])) (js_or account (JStr []))) (\<lambda>application.
           ret (createResponse R 200
             (JObj [(''message'', JStr ''Application created successfully''),
                    (''application'', JObj application)]) []))))))"

definition handleUpdateApplication :: "platform \<Rightarrow> obj \<Rightarrow> response eff" where
  "handleUpdateApplication R event =
     (let application_id = obj_get event ''application_id'';
          updates = obj_omit [''operation''] (obj_omit [''application_id''] event)
      in if \<not> truthy application_id
         then ret (invalid_request R ''Missing required parameter: application_id'')
         else if updates = []
         then ret (invalid_request R ''No update parameters provided'')
         else
         bind (if truthy (obj_get updates ''client_id'')
               then getClientById (obj_get updates ''client_id'')
               else ret (Some [])) (\<lambda>existingClient.
         if truthy (obj_get updates ''client_id'') \<and> existingClient = None
         then ret (invalid_request R
           ''Client ID not found. Cannot update to non-existent client'')
         else
         bind (getApplicationById application_id) (\<lambda>existingApplication.
         if existingApplication = None then ret (invalid_request R ''Application not found'')
         else
         bind (updateApplication R application_id updates) (\<lambda>updatedApplication.
           ret (createResponse R 200
             (JObj [(''message'', JStr ''Application updated successfully''),
                    (''application'', JObj updatedApplication)]) [])))))"

definition management_application_handler :: "platform \<Rightarrow> jv \<Rightarrow> world \<Rightarrow> response \<times> world" where
  "management_application_handler R event =
     catch_all R
       (bind (lift (destructure event)) (\<lambda>ev.
          let operation = obj_get ev ''operation''
          in if \<not> truthy operation
             then ret (invalid_request R
               ''Missing operation parameter. Valid operations: createApplication, updateApplication'')
             else if operation = JStr ''createApplication'' then handleCreateApplication R ev
             else if operation = JStr ''updateApplication'' then handleUpdateApplication R ev
             else bind (lift (to_string R operation)) (\<lambda>s.
               ret (invalid_request R (''Unknown operation: '' @ s
                 @ ''. Valid operations: createApplication, updateApplication'')))))"

subsection \<open>User-application mappings\<close>

definition handleCreateUserApplication :: "platform \<Rightarrow> obj \<Rightarrow> response eff" where
  "handleCreateUserApplication R event =
     (let user_id = obj_get event ''user_id''; application_id = obj_get event ''application_id'';
          account = obj_get event ''account''
      in if \<not> truthy user_id \<or> \<not> truthy application_id
         then ret (invalid_request R
           ''Missing required parameters: user_id and application_id are required'')
         else
         bind (getUserById user_id) (\<lambda>existingUser.
         if existingUser = None
         then ret (invalid_request R ''User ID not found. Please create the user first'')
         else
         bind (getApplicationById application_id) (\<lambda>existingApplication.
         if existingApplication = None
         then ret (invalid_request R
           ''Application ID not found. Please create the application first'')
         else
         bind (getUserApplication user_id application_id) (\<lambda>existingUserApplication.
         if existingUserApplication \<noteq> None
         then ret (invalid_request R
           ''User-application mapping already exists. Use updateUserApplication to modify it'')
         else
         bind (createUserApplication R user_id application_id (js_or account (JStr [])))
           (\<lambda>userApplication.
             ret (createResponse R 200
               (JObj [(''message'', JStr ''User-application mapping created successfully''),
                      (''user_application'', JObj userApplication)]) []))))))"

definition handleUpdateUserApplication :: "platform \<Rightarrow> obj \<Rightarrow> response eff" where
  "handleUpdateUserApplication R event =
     (let user_id = obj_get event ''user_id''; application_id = obj_get event ''application_id'';
          updates = obj_omit [''operation''] (obj_omit [''user_id'', ''application_id''] event)
      in if \<not> truthy user_id \<or> \<not> truthy application_id
         then ret (invalid_request R
           ''Missing required parameters: user_id and application_id are required'')
         else if updates = []
         then ret (invalid_request R ''No update parameters provided'')
         else
         bind (getUserApplication user_id application_id) (\<lambda>existingUserApplication.
         if existingUserApplication = None
         then ret (invalid_request R
           ''User-application mapping not found. Use createUserApplication to create it first'')
         else
         bind (updateUserApplication R user_id application_id updates)
           (\<lambda>updatedUserApplication.
             ret (createResponse R 200
               (JObj [(''message'', JStr ''User-application mapping updated successfully''),
                      (''user_application'', JObj updatedUserApplication)]) []))))"

definition management_user_application_handler ::
  "platform \<Rightarrow> jv \<Rightarrow> world \<Rightarrow> response \<times> world" where
  "management_user_application_handler R event =
     catch_all R
       (bind (lift (destructure event)) (\<lambda>ev.
          let operation = obj_get ev ''operation''
          in if \<not> truthy operation
             then ret (invalid_request R
               ''Missing operation parameter. Valid operations: createUserApplication, updateUserApplication'')
             else if operation = JStr ''createUserApplication''
             then handleCreateUserApplication R ev
             else if operation = JStr ''updateUserApplication''
             then handleUpdateUserApplication R ev
             else bind (lift (to_string R operation)) (\<lambda>s.
               ret (invalid_request R (''Unknown operation: '' @ s
                 @ ''. Valid operations: createUserApplication, updateUserApplication'')))))"

section \<open>A sample platform and sample worlds\<close>

text \<open>
  A small platform on which the definitions can be run: a compact writer of values, a
  parser that knows the documents of \<open>sample_documents\<close>, an URL parser that knows three
  schemes, a password hash that is transparent, a clock that ticks once per reading.
\<close>

fun write_json :: "jv \<Rightarrow> string" where
  "write_json JUndefined = ''null''"
| "write_json JNull = ''null''"
| "write_json (JBool b) = (if b then ''true'' else ''false'')"
| "write_json (JNum n) = (if n < 0 then ''-'' @ show_nat (nat (- n)) else show_nat (nat n))"
| "write_json (JStr s) = [CHR 0x22] @ s @ [CHR 0x22]"
| "write_json (JArr xs) = ''['' @ concat (map (\<lambda>x. write_json x @ '','') xs) @ '']''"
| "write_json (JObj kvs) =
     ''{'' @ concat (map (\<lambda>(k, v). [CHR 0x22] @ k @ [CHR 0x22] @ '':'' @ write_json v @ '','') kvs)
       @ ''}''"

text \<open>
  The conversion to a string of the sample platform: an object that has a property of its
  own named \<open>toString\<close> (which, coming from JSON, is not a function) cannot be
  converted; any other object is \<open>[object Object]\<close>; an array is its elements joined
  by commas, \<open>null\<close> and \<open>undefined\<close> elements giving the empty string.
\<close>

fun sample_to_string :: "jv \<Rightarrow> jserr + string"
  and sample_join :: "jv list \<Rightarrow> jserr + string" where
  "sample_to_string JUndefined = Inr ''undefined''"
| "sample_to_string JNull = Inr ''null''"
| "sample_to_string (JBool b) = Inr (if b then ''true'' else ''false'')"
| "sample_to_string (JNum n) =
     Inr (if n < 0 then ''-'' @ show_nat (nat (- n)) else show_nat (nat n))"
| "sample_to_string (JStr s) = Inr s"
| "sample_to_string (JArr xs) = sample_join xs"
| "sample_to_string (JObj kvs) =
     (if ''toString'' \<in> set (map fst kvs)
      then Inl (JsError ''TypeError'' ''Cannot convert object to primitive value'')
      else Inr ''[object Object]'')"
| "sample_join [] = Inr []"
| "sample_join (x # xs) =
     (case (if x = JNull \<or> x = JUndefined then Inr [] else sample_to_string x) of
        Inl e \<Rightarrow> Inl e
      | Inr s \<Rightarrow>
         (if xs = [] then Inr s
          else (case sample_join xs of Inl e \<Rightarrow> Inl e | Inr t \<Rightarrow> Inr (s @ '','' @ t))))"

definition sample_keys :: obj where
  "sample_keys = [(''private_key'', JStr ''PRIVATE-0''), (''public_key'', JStr ''PUBLIC-0''),
                  (''kid'', JStr ''kid-0''), (''alg'', JStr ''RS256'')]"

definition sample_documents :: "(string \<times> jv) list" where
  "sample_documents = [(''{}'', JObj []), (''null'', JNull), (''KEYS'', JObj sample_keys)]"

definition sample_protocol :: "string \<Rightarrow> string option" where
  "sample_protocol s =
     (if take 8 s = ''https://'' then Some ''https:''
      else if take 7 s = ''http://'' then Some ''http:''
      else if take 6 s = ''ftp://'' then Some ''ftp:''
      else None)"

definition R0 :: platform where
  "R0 = \<lparr>json_stringify = write_json,
         json_parse = (\<lambda>s. case map_of sample_documents s of
                              Some v \<Rightarrow> Inr v
                            | None \<Rightarrow> Inl (JsError ''SyntaxError'' ''Unexpected token'')),
         to_string_other = sample_to_string,
         length_lt_other = (\<lambda>v n. Inr False),
         url_protocol = sample_protocol,
         bcrypt_hash = (\<lambda>s rounds salt. ''$2b$'' @ show_nat rounds @ ''$'' @ s),
         bcrypt_compare = (\<lambda>s h. h = ''$2b$10$'' @ s),
         toISOString = (\<lambda>t. ''T'' @ show_nat (nat t)),
         clock = (\<lambda>n. 1000 + int n),
         uuid_src = (\<lambda>n. ''uuid-'' @ show_nat n),
         salt_src = (\<lambda>n. ''salt-'' @ show_nat n),
         keygen_src = (\<lambda>n. Inr (''PUBLIC-'' @ show_nat n, ''PRIVATE-'' @ show_nat n)),
         ssm_fault = (\<lambda>n. None),
         ssm_not_found_message = ''Parameter not found'',
         ISSUER_URL_PARAM_NAME = ''/oidc/issuer-url'',
         JWT_KEYS_PARAM_NAME = ''/oidc/jwt-keys''\<rparr>"

text \<open>The empty world: no rows, no parameters, nothing cached, nothing drawn yet.\<close>

definition w0 :: world where
  "w0 = \<lparr>tables = (\<lambda>t. []), db_log = [], ssm_params = (\<lambda>name. None), ssm_log = [],
         keygen_log = [], cachedIssuerUrl = None, cacheTimestamp = None,
         clock_reads = 0, uuid_reads = 0, salt_reads = 0\<rparr>"

text \<open>A world with one user, one client, one application and one mapping between them.\<close>

definition sample_user :: obj where
  "sample_user = [(''user_id'', JStr ''u-1''), (''username'', JStr ''bob''),
     (''password_hash'', JStr ''$2b$10$hunter2hunter2''), (''email'', JStr ''bob@example.com''),
     (''email_verified'', JBool False), (''created_at'', JStr ''T1''), (''updated_at'', JStr ''T1'')]"

definition sample_client :: obj where
  "sample_client = [(''client_id'', JStr ''web''), (''client_secret'', JStr ''s3cret''),
     (''redirect_uris'', JArr [JStr ''https://app.example.com/cb'']), (''name'', JStr ''Web''),
     (''description'', JStr []), (''created_at'', JStr ''T2''), (''updated_at'', JStr ''T2'')]"

definition sample_application :: obj where
  "sample_application = [(''application_id'', JStr ''app-prod''), (''client_id'', JStr ''web''),
     (''name'', JStr ''Production''), (''description'', JStr []), (''account'', JStr ''acct-1''),
     (''created_at'', JStr ''T3''), (''updated_at'', JStr ''T3'')]"

definition sample_mapping :: obj where
  "sample_mapping = [(''user_id'', JStr ''u-1''), (''application_id'', JStr ''app-prod''),
     (''account'', JStr ''acct-1''), (''created_at'', JStr ''T4''), (''updated_at'', JStr ''T4'')]"

definition w1 :: world where
  "w1 = w0\<lparr>tables := (\<lambda>t. case t of
             Users \<Rightarrow> [sample_user]
           | Clients \<Rightarrow> [sample_client]
           | Applications \<Rightarrow> [sample_application]
           | UserApplications \<Rightarrow> [sample_mapping]
           | _ \<Rightarrow> [])\<rparr>"

text \<open>
  A world whose issuer URL was cached at time 1000, seen when the clock is about to read
  301000: exactly five minutes later.
\<close>

definition w_cached :: world where
  "w_cached = w0\<lparr>ssm_params := [''/oidc/issuer-url'' \<mapsto> ''https://issuer.example.com''],
                  cachedIssuerUrl := Some ''https://issuer.example.com'',
                  cacheTimestamp := Some 1000,
                  clock_reads := 300000\<rparr>"

text \<open>
  Two worlds for the signing keys: the parameter holds the empty object, or the document
  \<open>KEYS\<close>, which the sample parser reads as \<open>sample_keys\<close>.
\<close>

definition w_blank_keys :: world where
  "w_blank_keys = w0\<lparr>ssm_params := [''/oidc/jwt-keys'' \<mapsto> ''{}'']\<rparr>"

definition w_stored_keys :: world where
  "w_stored_keys = w0\<lparr>ssm_params := [''/oidc/jwt-keys'' \<mapsto> ''KEYS'']\<rparr>"

section \<open>Vocabulary of the properties\<close>

text \<open>
  The \<open>client_id\<close> of each row of the clients table, in the order of the table. The ids
  are kept from one world to a later one when the later list starts with the earlier one:
  every row that was there still has its id. An effect keeps the ids when it does so from
  every world.
\<close>

definition client_ids :: "world \<Rightarrow> jv option list" where
  "client_ids w = map (\<lambda>row. map_of row ''client_id'') (tables w Clients)"

definition ids_kept :: "world \<Rightarrow> world \<Rightarrow> bool" where
  "ids_kept w w' = (take (length (client_ids w)) (client_ids w') = client_ids w)"

definition keeps_client_ids :: "'a eff \<Rightarrow> bool" where
  "keeps_client_ids m = (\<forall>w. ids_kept w (snd (m w)))"

text \<open>The \<open>operation\<close> a handler reads from an event that is not \<open>null\<close>.\<close>

definition operation_of :: "jv \<Rightarrow> jv" where
  "operation_of event = (case event of JObj kvs \<Rightarrow> obj_get kvs ''operation'' | _ \<Rightarrow> JUndefined)"

text \<open>
  A value converts when \<open>String(v)\<close> returns, and its length compares with \<open>n\<close> when
  \<open>v.length < n\<close> returns; the redirect URIs convert when each member of the array does.
\<close>

definition converts :: "platform \<Rightarrow> jv \<Rightarrow> bool" where
  "converts R v = (case to_string R v of Inl e \<Rightarrow> False | Inr s \<Rightarrow> True)"

definition compares_length :: "platform \<Rightarrow> jv \<Rightarrow> nat \<Rightarrow> bool" where
  "compares_length R v n = (case length_lt R v n of Inl e \<Rightarrow> False | Inr b \<Rightarrow> True)"

fun uris_convert :: "platform \<Rightarrow> jv \<Rightarrow> bool" where
  "uris_convert R (JArr uris) = list_all (converts R) uris"
| "uris_convert R v = True"

section \<open>Properties\<close>

subsection \<open>Effects, objects and rows\<close>

lemma bind_ret: "bind (ret x) f = f x"
  by (simp add: bind_def ret_def)

lemma bind_throw: "bind (throw e) f = throw e"
  by (simp add: bind_def throw_def)

lemma lift_Inr: "lift (Inr x) = ret x"
  by (simp add: lift_def)

lemma lift_Inl: "lift (Inl e) = throw e"
  by (simp add: lift_def)

lemma map_of_obj_set: "map_of (obj_set ob k v) = (map_of ob)(k \<mapsto> v)"
  by (simp add: obj_set_def update_conv')

lemma map_of_obj_spread: "map_of (obj_spread a b) = map_of a ++ map_of (rev b)"
proof (induction b arbitrary: a)
  case Nil
  show ?case by (simp add: obj_spread_def)
next
  case (Cons p b)
  obtain k v where p: "p = (k, v)" by (cases p)
  have "map_of (obj_spread a (p # b)) = map_of (obj_spread (obj_set a k v) b)"
    by (simp add: obj_spread_def p)
  also have "\<dots> = map_of (obj_set a k v) ++ map_of (rev b)"
    by (rule Cons.IH)
  also have "\<dots> = (map_of a)(k \<mapsto> v) ++ map_of (rev b)"
    by (simp only: map_of_obj_set)
  also have "\<dots> = map_of a ++ ([k \<mapsto> v] ++ map_of (rev b))"
    by (rule ext) (simp add: map_add_def split: option.split)
  also have "\<dots> = map_of a ++ map_of (rev (p # b))"
    by (simp add: p)
  finally show ?case .
qed

lemma map_of_rev_distinct: "distinct (map fst b) \<Longrightarrow> map_of (rev b) = map_of b"
proof (induction b)
  case Nil
  show ?case by simp
next
  case (Cons p b)
  obtain k v where p: "p = (k, v)" by (cases p)
  from Cons.prems have k: "k \<notin> fst ` set b" and d: "distinct (map fst b)"
    by (auto simp: p)
  have "map_of b k = None" using k by (simp add: map_of_eq_None_iff)
  then show ?case
    using Cons.IH [OF d] by (auto simp: p map_add_def fun_eq_iff split: option.splits)
qed

lemma find_map_replace:
  "P item \<Longrightarrow> list_ex P rows \<Longrightarrow> find P (map (\<lambda>r. if P r then item else r) rows) = Some item"
  by (induction rows) auto

lemma find_append_new:
  "\<not> list_ex P rows \<Longrightarrow> P item \<Longrightarrow> find P (rows @ [item]) = Some item"
  by (induction rows) auto

lemma find_put_rows:
  "matches_key (key_of t item) item \<Longrightarrow>
   find (matches_key (key_of t item)) (put_rows t item rows) = Some item"
  by (simp add: put_rows_def find_map_replace find_append_new)

text \<open>An update of a record that is there: what it returns and the world it leaves.\<close>

lemma updateClient_found:
  assumes "find (matches_key [(''client_id'', clientId)]) (tables w Clients) = Some client"
  shows "updateClient R clientId updates w =
    (let updatedClient = obj_set (obj_set (obj_spread client updates) ''client_id'' clientId)
           ''updated_at'' (JStr (toISOString R (clock R (clock_reads w))))
     in (Inr updatedClient,
         w\<lparr>tables := (tables w)(Clients := put_rows Clients updatedClient (tables w Clients)),
           db_log := db_log w @ [GetCommand Clients [(''client_id'', clientId)],
                                 PutCommand Clients updatedClient],
           clock_reads := Suc (clock_reads w)\<rparr>))"
  using assms
  by (simp add: updateClient_def getClientById_def getItem_def bind_def new_date_iso_def
      date_now_def putItem_def ret_def Let_def)


lemma updateApplication_found:
  assumes "find (matches_key [(''application_id'', applicationId)]) (tables w Applications)
           = Some application"
  shows "updateApplication R applicationId updates w =
    (let updatedApplication =
           obj_set (obj_set (obj_spread application updates) ''application_id'' applicationId)
             ''updated_at'' (JStr (toISOString R (clock R (clock_reads w))))
     in (Inr updatedApplication,
         w\<lparr>tables := (tables w)(Applications :=
              put_rows Applications updatedApplication (tables w Applications)),
           db_log := db_log w @ [GetCommand Applications [(''application_id'', applicationId)],
                                 PutCommand Applications updatedApplication],
           clock_reads := Suc (clock_reads w)\<rparr>))"
  using assms
  by (simp add: updateApplication_def getApplicationById_def getItem_def bind_def
      new_date_iso_def date_now_def putItem_def ret_def Let_def)

lemma updateUserApplication_found:
  assumes "find (matches_key [(''user_id'', userId), (''application_id'', applicationId)])
             (tables w UserApplications) = Some userApplication"
  shows "updateUserApplication R userId applicationId updates w =
    (let updatedUserApplication =
           obj_set (obj_set (obj_set (obj_spread userApplication updates) ''user_id'' userId)
             ''application_id'' applicationId)
             ''updated_at'' (JStr (toISOString R (clock R (clock_reads w))))
     in (Inr updatedUserApplication,
         w\<lparr>tables := (tables w)(UserApplications :=
              put_rows UserApplications updatedUserApplication (tables w UserApplications)),
           db_log := db_log w @
             [GetCommand UserApplications [(''user_id'', userId), (''application_id'', applicationId)],
              PutCommand UserApplications updatedUserApplication],
           clock_reads := Suc (clock_reads w)\<rparr>))"
  using assms
  by (simp add: updateUserApplication_def getUserApplication_def getItem_def bind_def
      new_date_iso_def date_now_def putItem_def ret_def Let_def)

text \<open>What \<open>createUser\<close> returns and leaves, by the kind of its password argument.\<close>

lemma createUser_string:
  "createUser R username (JStr p) email w =
     (let user = user_record (uuid_src R (uuid_reads w)) username
                   (bcrypt_hash R p 10 (salt_src R (salt_reads w))) email
                   (toISOString R (clock R (clock_reads w)))
                   (toISOString R (clock R (Suc (clock_reads w))))
      in (Inr user,
          w\<lparr>tables := (tables w)(Users := put_rows Users user (tables w Users)),
            db_log := db_log w @ [PutCommand Users user],
            clock_reads := Suc (Suc (clock_reads w)),
            uuid_reads := Suc (uuid_reads w),
            salt_reads := Suc (salt_reads w)\<rparr>))"
  by (simp add: createUser_def bind_def uuidv4_def bcrypt_hash_eff_def new_date_iso_def
      date_now_def putItem_def ret_def Let_def)

lemma createUser_not_string:
  "\<not> is_JStr password \<Longrightarrow> \<exists>e. createUser R username password email w
      = (Inl e, w\<lparr>uuid_reads := Suc (uuid_reads w)\<rparr>)"
  by (cases password)
    (simp_all add: createUser_def bind_def uuidv4_def bcrypt_hash_eff_def throw_def)

lemma createUser_fields:
  assumes "createUser R username password email w = (Inr user, w')"
  shows "map fst user = [''user_id'', ''username'', ''password_hash'', ''email'',
                         ''email_verified'', ''created_at'', ''updated_at'']
         \<and> tables w' Users = put_rows Users user (tables w Users)
         \<and> db_log w' = db_log w @ [PutCommand Users user]"
proof (cases "is_JStr password")
  case True
  then obtain p where "password = JStr p" by (cases password) simp_all
  with assms have u: "user = user_record (uuid_src R (uuid_reads w)) username
                   (bcrypt_hash R p 10 (salt_src R (salt_reads w))) email
                   (toISOString R (clock R (clock_reads w)))
                   (toISOString R (clock R (Suc (clock_reads w))))"
    and w': "w' = w\<lparr>tables := (tables w)(Users := put_rows Users user (tables w Users)),
            db_log := db_log w @ [PutCommand Users user],
            clock_reads := Suc (Suc (clock_reads w)),
            uuid_reads := Suc (uuid_reads w),
            salt_reads := Suc (salt_reads w)\<rparr>"
    by (auto simp: createUser_string Let_def)
  have "map fst user = [''user_id'', ''username'', ''password_hash'', ''email'',
                         ''email_verified'', ''created_at'', ''updated_at'']"
    by (simp add: u user_record_def)
  moreover have "tables w' Users = put_rows Users user (tables w Users)"
    by (subst w') simp
  moreover have "db_log w' = db_log w @ [PutCommand Users user]"
    by (subst w') simp
  ultimately show ?thesis by blast
next
  case False
  from createUser_not_string [OF this, of R username email w] assms show ?thesis by auto
qed

subsection \<open>Signing keys: stored, or generated once\<close>

lemma getSigningKeys_absent:
  assumes "ssm_fault R (length (ssm_log w)) = None"
    and "ssm_params w (JWT_KEYS_PARAM_NAME R) = None"
  shows "getSigningKeys R w =
    (Inl (JsError ''ParameterNotFound'' (ssm_not_found_message R)),
     w\<lparr>ssm_log := ssm_log w @ [GetParameterCommand (JWT_KEYS_PARAM_NAME R) True]\<rparr>)"
  using assms
  by (simp add: getSigningKeys_def bind_def ssm_get_def Let_def)

lemma getSigningKeys_complete:
  assumes "ssm_fault R (length (ssm_log w)) = None"
    and "ssm_params w (JWT_KEYS_PARAM_NAME R) = Some s"
    and "json_parse R s = Inr keys"
    and "get_member keys ''private_key'' = Inr private_key"
    and "get_member keys ''public_key'' = Inr public_key"
    and "truthy private_key" and "truthy public_key"
  shows "getSigningKeys R w =
    (Inr keys, w\<lparr>ssm_log := ssm_log w @ [GetParameterCommand (JWT_KEYS_PARAM_NAME R) True]\<rparr>)"
  using assms
  by (simp add: getSigningKeys_def bind_def ssm_get_def Let_def lift_def ret_def
      split del: if_split)

lemma getSigningKeys_too_large:
  assumes "ssm_fault R (length (ssm_log w)) = None"
    and "ssm_params w (JWT_KEYS_PARAM_NAME R) = Some s"
    and "json_parse R s = Inr keys"
    and "get_member keys ''private_key'' = Inr private_key"
    and "get_member keys ''public_key'' = Inr public_key"
    and "\<not> (truthy private_key \<and> truthy public_key)"
    and "keygen_src R (length (keygen_log w)) = Inr (publicKey, privateKey)"
    and "4096 < length (json_stringify R
           (JObj (new_keys privateKey publicKey (uuid_src R (uuid_reads w)))))"
  shows "getSigningKeys R w =
    (Inl (JsError ''Error'' (''JWT keys too large for SSM parameter: ''
            @ show_nat (length (json_stringify R
                (JObj (new_keys privateKey publicKey (uuid_src R (uuid_reads w))))))
            @ '' bytes (max 4096)'')),
     w\<lparr>ssm_log := ssm_log w @ [GetParameterCommand (JWT_KEYS_PARAM_NAME R) True],
       keygen_log := keygen_log w @ [rsa_request],
       uuid_reads := Suc (uuid_reads w)\<rparr>)"
  using assms
  by (cases "truthy private_key")
    (simp_all add: getSigningKeys_def bind_def ssm_get_def Let_def lift_def ret_def throw_def
      generateKeyPair_def uuidv4_def split del: if_split)

lemma getSigningKeys_generated:
  assumes "ssm_fault R (length (ssm_log w)) = None"
    and "ssm_params w (JWT_KEYS_PARAM_NAME R) = Some s"
    and "json_parse R s = Inr keys"
    and "get_member keys ''private_key'' = Inr private_key"
    and "get_member keys ''public_key'' = Inr public_key"
    and "\<not> (truthy private_key \<and> truthy public_key)"
    and "keygen_src R (length (keygen_log w)) = Inr (publicKey, privateKey)"
    and "length (json_stringify R
           (JObj (new_keys privateKey publicKey (uuid_src R (uuid_reads w))))) \<le> 4096"
    and "ssm_fault R (Suc (length (ssm_log w))) = None"
  shows "getSigningKeys R w =
    (Inr (JObj (new_keys privateKey publicKey (uuid_src R (uuid_reads w)))),
     w\<lparr>ssm_log := ssm_log w @
         [GetParameterCommand (JWT_KEYS_PARAM_NAME R) True,
          PutParameterCommand (JWT_KEYS_PARAM_NAME R)
            (json_stringify R (JObj (new_keys privateKey publicKey (uuid_src R (uuid_reads w)))))
            ''SecureString'' True],
       ssm_params := (ssm_params w)(JWT_KEYS_PARAM_NAME R \<mapsto>
          json_stringify R (JObj (new_keys privateKey publicKey (uuid_src R (uuid_reads w))))),
       keygen_log := keygen_log w @ [rsa_request],
       uuid_reads := Suc (uuid_reads w)\<rparr>)"
  using assms
  by (cases "truthy private_key")
    (simp_all add: getSigningKeys_def bind_def ssm_get_def ssm_put_def Let_def lift_def ret_def
      throw_def generateKeyPair_def uuidv4_def split del: if_split)

lemma getSigningKeys_generator_fails:
  assumes "ssm_fault R (length (ssm_log w)) = None"
    and "ssm_params w (JWT_KEYS_PARAM_NAME R) = Some s"
    and "json_parse R s = Inr keys"
    and "get_member keys ''private_key'' = Inr private_key"
    and "get_member keys ''public_key'' = Inr public_key"
    and "\<not> (truthy private_key \<and> truthy public_key)"
    and "keygen_src R (length (keygen_log w)) = Inl e"
  shows "getSigningKeys R w =
    (Inl e,
     w\<lparr>ssm_log := ssm_log w @ [GetParameterCommand (JWT_KEYS_PARAM_NAME R) True],
       keygen_log := keygen_log w @ [rsa_request]\<rparr>)"
  using assms
  by (cases "truthy private_key")
    (simp_all add: getSigningKeys_def bind_def ssm_get_def Let_def lift_def ret_def throw_def
      generateKeyPair_def split del: if_split)

lemma getSigningKeys_write_refused:
  assumes "ssm_fault R (length (ssm_log w)) = None"
    and "ssm_params w (JWT_KEYS_PARAM_NAME R) = Some s"
    and "json_parse R s = Inr keys"
    and "get_member keys ''private_key'' = Inr private_key"
    and "get_member keys ''public_key'' = Inr public_key"
    and "\<not> (truthy private_key \<and> truthy public_key)"
    and "keygen_src R (length (keygen_log w)) = Inr (publicKey, privateKey)"
    and "length (json_stringify R
           (JObj (new_keys privateKey publicKey (uuid_src R (uuid_reads w))))) \<le> 4096"
    and "ssm_fault R (Suc (length (ssm_log w))) = Some e"
  shows "getSigningKeys R w =
    (Inl e,
     w\<lparr>ssm_log := ssm_log w @
         [GetParameterCommand (JWT_KEYS_PARAM_NAME R) True,
          PutParameterCommand (JWT_KEYS_PARAM_NAME R)
            (json_stringify R (JObj (new_keys privateKey publicKey (uuid_src R (uuid_reads w)))))
            ''SecureString'' True],
       keygen_log := keygen_log w @ [rsa_request],
       uuid_reads := Suc (uuid_reads w)\<rparr>)"
  using assms
  by (cases "truthy private_key")
    (simp_all add: getSigningKeys_def bind_def ssm_get_def ssm_put_def Let_def lift_def ret_def
      throw_def generateKeyPair_def uuidv4_def split del: if_split)

text \<open>
  Claim C1, as amended. Take a call of \<open>getSigningKeys\<close> whose read of the parameter
  store does not fail for another reason. When the parameter is absent, the call fails
  with \<open>ParameterNotFound\<close>; nothing is generated or written. When the parameter
  parses to a value that is not \<open>null\<close> and has a truthy \<open>private_key\<close> and
  \<open>public_key\<close>, that value is returned and nothing is generated or written. When one
  of the two is missing or falsy, one RSA key pair of 2048 bits is requested. If the
  generator fails, the call fails with its error and nothing is written. If it answers,
  one identifier is drawn and the new structure carries the pair, the identifier and the
  tag \<open>RS256\<close>; if its serialization is longer than 4096 the call fails before any
  write; otherwise the write is sent: accepted, the parameter holds the serialization and
  the structure is returned; refused, the call fails with the store's error and the
  parameter is as it was.
\<close>

theorem signing_keys_get_or_generate:
  assumes "ssm_fault R (length (ssm_log w)) = None"
  shows "(ssm_params w (JWT_KEYS_PARAM_NAME R) = None
      \<longrightarrow> getSigningKeys R w =
            (Inl (JsError ''ParameterNotFound'' (ssm_not_found_message R)),
             w\<lparr>ssm_log := ssm_log w @ [GetParameterCommand (JWT_KEYS_PARAM_NAME R) True]\<rparr>))
   \<and> (ssm_params w (JWT_KEYS_PARAM_NAME R) = Some s \<and> json_parse R s = Inr keys
        \<and> get_member keys ''private_key'' = Inr private_key
        \<and> get_member keys ''public_key'' = Inr public_key
      \<longrightarrow> (truthy private_key \<and> truthy public_key
            \<longrightarrow> getSigningKeys R w =
                  (Inr keys,
                   w\<lparr>ssm_log := ssm_log w @ [GetParameterCommand (JWT_KEYS_PARAM_NAME R) True]\<rparr>))
        \<and> (\<not> (truthy private_key \<and> truthy public_key)
             \<and> keygen_src R (length (keygen_log w)) = Inl e
            \<longrightarrow> getSigningKeys R w =
                  (Inl e,
                   w\<lparr>ssm_log := ssm_log w @ [GetParameterCommand (JWT_KEYS_PARAM_NAME R) True],
                     keygen_log := keygen_log w
                       @ [\<lparr>key_type = ''rsa'', modulusLength = 2048,
                           publicKeyEncoding = (''spki'', ''pem''),
                           privateKeyEncoding = (''pkcs8'', ''pem'')\<rparr>]\<rparr>))
        \<and> (\<not> (truthy private_key \<and> truthy public_key)
             \<and> keygen_src R (length (keygen_log w)) = Inr (publicKey, privateKey)
            \<longrightarrow> (let newKeys = [(''private_key'', JStr privateKey), (''public_key'', JStr publicKey),
                                (''kid'', JStr (uuid_src R (uuid_reads w))),
                                (''alg'', JStr ''RS256'')];
                      keysJson = json_stringify R (JObj newKeys);
                      generated = w\<lparr>ssm_log := ssm_log w
                                      @ [GetParameterCommand (JWT_KEYS_PARAM_NAME R) True],
                                    keygen_log := keygen_log w
                                      @ [\<lparr>key_type = ''rsa'', modulusLength = 2048,
                                          publicKeyEncoding = (''spki'', ''pem''),
                                          privateKeyEncoding = (''pkcs8'', ''pem'')\<rparr>],
                                    uuid_reads := Suc (uuid_reads w)\<rparr>;
                      sent = generated\<lparr>ssm_log := ssm_log w
                                 @ [GetParameterCommand (JWT_KEYS_PARAM_NAME R) True,
                                    PutParameterCommand (JWT_KEYS_PARAM_NAME R) keysJson
                                      ''SecureString'' True]\<rparr>
                  in (4096 < length keysJson
                      \<longrightarrow> getSigningKeys R w =
                            (Inl (JsError ''Error'' (''JWT keys too large for SSM parameter: ''
                                   @ show_nat (length keysJson) @ '' bytes (max 4096)'')),
                             generated))
                   \<and> (length keysJson \<le> 4096 \<and> ssm_fault R (Suc (length (ssm_log w))) = None
                      \<longrightarrow> getSigningKeys R w =
                            (Inr (JObj newKeys),
                             sent\<lparr>ssm_params := (ssm_params w)(JWT_KEYS_PARAM_NAME R \<mapsto> keysJson)\<rparr>))
                   \<and> (length keysJson \<le> 4096 \<and> ssm_fault R (Suc (length (ssm_log w))) = Some e
                      \<longrightarrow> getSigningKeys R w = (Inl e, sent)
                          \<and> ssm_params sent = ssm_params w))))"
proof (intro conjI impI; (elim conjE)?)
  assume "ssm_params w (JWT_KEYS_PARAM_NAME R) = None"
  with assms show "getSigningKeys R w =
            (Inl (JsError ''ParameterNotFound'' (ssm_not_found_message R)),
             w\<lparr>ssm_log := ssm_log w @ [GetParameterCommand (JWT_KEYS_PARAM_NAME R) True]\<rparr>)"
    by (rule getSigningKeys_absent)
next
  assume "ssm_params w (JWT_KEYS_PARAM_NAME R) = Some s" "json_parse R s = Inr keys"
    "get_member keys ''private_key'' = Inr private_key"
    "get_member keys ''public_key'' = Inr public_key" "truthy private_key" "truthy public_key"
  with assms show "getSigningKeys R w =
                  (Inr keys,
                   w\<lparr>ssm_log := ssm_log w @ [GetParameterCommand (JWT_KEYS_PARAM_NAME R) True]\<rparr>)"
    by (rule getSigningKeys_complete)
next
  assume h: "ssm_params w (JWT_KEYS_PARAM_NAME R) = Some s" "json_parse R s = Inr keys"
    "get_member keys ''private_key'' = Inr private_key"
    "get_member keys ''public_key'' = Inr public_key"
    "\<not> (truthy private_key \<and> truthy public_key)"
    "keygen_src R (length (keygen_log w)) = Inl e"
  show "getSigningKeys R w =
                  (Inl e,
                   w\<lparr>ssm_log := ssm_log w @ [GetParameterCommand (JWT_KEYS_PARAM_NAME R) True],
                     keygen_log := keygen_log w
                       @ [\<lparr>key_type = ''rsa'', modulusLength = 2048,
                           publicKeyEncoding = (''spki'', ''pem''),
                           privateKeyEncoding = (''pkcs8'', ''pem'')\<rparr>]\<rparr>)"
    using getSigningKeys_generator_fails [OF assms h] by (simp add: rsa_request_def)
next
  assume h: "ssm_params w (JWT_KEYS_PARAM_NAME R) = Some s" "json_parse R s = Inr keys"
    "get_member keys ''private_key'' = Inr private_key"
    "get_member keys ''public_key'' = Inr public_key"
    "\<not> (truthy private_key \<and> truthy public_key)"
    "keygen_src R (length (keygen_log w)) = Inr (publicKey, privateKey)"
  show "let newKeys = [(''private_key'', JStr privateKey), (''public_key'', JStr publicKey),
                                (''kid'', JStr (uuid_src R (uuid_reads w))),
                                (''alg'', JStr ''RS256'')];
                      keysJson = json_stringify R (JObj newKeys);
                      generated = w\<lparr>ssm_log := ssm_log w
                                      @ [GetParameterCommand (JWT_KEYS_PARAM_NAME R) True],
                                    keygen_log := keygen_log w
                                      @ [\<lparr>key_type = ''rsa'', modulusLength = 2048,
                                          publicKeyEncoding = (''spki'', ''pem''),
                                          privateKeyEncoding = (''pkcs8'', ''pem'')\<rparr>],
                                    uuid_reads := Suc (uuid_reads w)\<rparr>;
                      sent = generated\<lparr>ssm_log := ssm_log w
                                 @ [GetParameterCommand (JWT_KEYS_PARAM_NAME R) True,
                                    PutParameterCommand (JWT_KEYS_PARAM_NAME R) keysJson
                                      ''SecureString'' True]\<rparr>
                  in (4096 < length keysJson
                      \<longrightarrow> getSigningKeys R w =
                            (Inl (JsError ''Error'' (''JWT keys too large for SSM parameter: ''
                                   @ show_nat (length keysJson) @ '' bytes (max 4096)'')),
                             generated))
                   \<and> (length keysJson \<le> 4096 \<and> ssm_fault R (Suc (length (ssm_log w))) = None
                      \<longrightarrow> getSigningKeys R w =
                            (Inr (JObj newKeys),
                             sent\<lparr>ssm_params := (ssm_params w)(JWT_KEYS_PARAM_NAME R \<mapsto> keysJson)\<rparr>))
                   \<and> (length keysJson \<le> 4096 \<and> ssm_fault R (Suc (length (ssm_log w))) = Some e
                      \<longrightarrow> getSigningKeys R w = (Inl e, sent)
                          \<and> ssm_params sent = ssm_params w)"
    unfolding Let_def
    using getSigningKeys_too_large [OF assms h] getSigningKeys_generated [OF assms h]
      getSigningKeys_write_refused [OF assms h, of e]
    by (simp add: new_keys_def rsa_request_def)
qed

text \<open>
  The claim as stated fails when the parameter is absent: the read throws and the error is
  thrown on; no key pair is generated and nothing is persisted.
\<close>

theorem signing_keys_absent_counterexample:
  "ssm_fault R0 (length (ssm_log w0)) = None
   \<and> ssm_params w0 (JWT_KEYS_PARAM_NAME R0) = None
   \<and> fst (getSigningKeys R0 w0) = Inl (JsError ''ParameterNotFound'' ''Parameter not found'')
   \<and> keygen_log (snd (getSigningKeys R0 w0)) = []
   \<and> ssm_log (snd (getSigningKeys R0 w0)) = [GetParameterCommand ''/oidc/jwt-keys'' True]
   \<and> ssm_params (snd (getSigningKeys R0 w0)) (JWT_KEYS_PARAM_NAME R0) = None"
  by (simp add: getSigningKeys_def bind_def ssm_get_def Let_def R0_def w0_def)

theorem signing_keys_get_or_generate_witness:
  "fst (getSigningKeys R0 w_blank_keys)
     = Inr (JObj [(''private_key'', JStr ''PRIVATE-0''), (''public_key'', JStr ''PUBLIC-0''),
                  (''kid'', JStr ''uuid-0''), (''alg'', JStr ''RS256'')])
   \<and> ssm_params (snd (getSigningKeys R0 w_blank_keys)) ''/oidc/jwt-keys''
     = Some (write_json (JObj [(''private_key'', JStr ''PRIVATE-0''), (''public_key'', JStr ''PUBLIC-0''),
                  (''kid'', JStr ''uuid-0''), (''alg'', JStr ''RS256'')]))
   \<and> keygen_log (snd (getSigningKeys R0 w_blank_keys)) = [rsa_request]
   \<and> getSigningKeys R0 w_stored_keys
     = (Inr (JObj sample_keys),
        w_stored_keys\<lparr>ssm_log := [GetParameterCommand ''/oidc/jwt-keys'' True]\<rparr>)"
proof -
  let ?new = "[(''private_key'', JStr ''PRIVATE-0''), (''public_key'', JStr ''PUBLIC-0''),
                  (''kid'', JStr ''uuid-0''), (''alg'', JStr ''RS256'')]"
  have ok: "ssm_fault R0 (length (ssm_log w_blank_keys)) = None"
    "ssm_fault R0 (length (ssm_log w_stored_keys)) = None"
    by (simp_all add: R0_def)
  have name: "JWT_KEYS_PARAM_NAME R0 = ''/oidc/jwt-keys''" "json_stringify R0 = write_json"
    by (simp_all add: R0_def)
  have st: "ssm_log w_blank_keys = []" "keygen_log w_blank_keys = []" "uuid_reads w_blank_keys = 0"
    "ssm_log w_stored_keys = []"
    by (simp_all add: w_blank_keys_def w_stored_keys_def w0_def)
  have src: "keygen_src R0 0 = Inr (''PUBLIC-0'', ''PRIVATE-0'')" "uuid_src R0 0 = ''uuid-0''"
    by code_simp+
  have blank: "ssm_params w_blank_keys (JWT_KEYS_PARAM_NAME R0) = Some ''{}''
      \<and> json_parse R0 ''{}'' = Inr (JObj [])
      \<and> get_member (JObj []) ''private_key'' = Inr JUndefined
      \<and> get_member (JObj []) ''public_key'' = Inr JUndefined"
    by (simp add: w_blank_keys_def w0_def R0_def sample_documents_def get_member_def obj_get_def)
  have gen: "\<not> (truthy JUndefined \<and> truthy JUndefined)
      \<and> keygen_src R0 (length (keygen_log w_blank_keys)) = Inr (''PUBLIC-0'', ''PRIVATE-0'')"
    by (simp add: st src)
  have fits: "length (write_json (JObj ?new)) \<le> 4096
      \<and> ssm_fault R0 (Suc (length (ssm_log w_blank_keys))) = None"
    by (simp add: R0_def)
  have stored: "ssm_params w_stored_keys (JWT_KEYS_PARAM_NAME R0) = Some ''KEYS''
      \<and> json_parse R0 ''KEYS'' = Inr (JObj sample_keys)
      \<and> get_member (JObj sample_keys) ''private_key'' = Inr (JStr ''PRIVATE-0'')
      \<and> get_member (JObj sample_keys) ''public_key'' = Inr (JStr ''PUBLIC-0'')"
    by (simp add: w_stored_keys_def w0_def R0_def sample_documents_def sample_keys_def
        get_member_def obj_get_def)
  have B: "getSigningKeys R0 w_blank_keys =
      (Inr (JObj ?new),
       w_blank_keys\<lparr>ssm_log := [GetParameterCommand ''/oidc/jwt-keys'' True,
                                 PutParameterCommand ''/oidc/jwt-keys'' (write_json (JObj ?new))
                                   ''SecureString'' True],
                      keygen_log := [rsa_request],
                      uuid_reads := Suc 0,
                      ssm_params := (ssm_params w_blank_keys)
                         (''/oidc/jwt-keys'' \<mapsto> write_json (JObj ?new))\<rparr>)"
    using signing_keys_get_or_generate [OF ok(1), where s = "''{}''" and keys = "JObj []"
        and private_key = JUndefined and public_key = JUndefined
        and publicKey = "''PUBLIC-0''" and privateKey = "''PRIVATE-0''"]
      blank gen fits
    by (simp add: Let_def name st src rsa_request_def)
  have S: "getSigningKeys R0 w_stored_keys =
      (Inr (JObj sample_keys),
       w_stored_keys\<lparr>ssm_log := [GetParameterCommand ''/oidc/jwt-keys'' True]\<rparr>)"
    using signing_keys_get_or_generate [OF ok(2), where s = "''KEYS''" and keys = "JObj sample_keys"
        and private_key = "JStr ''PRIVATE-0''" and public_key = "JStr ''PUBLIC-0''"]
      stored
    by (simp add: name st)
  have 1: "fst (getSigningKeys R0 w_blank_keys) = Inr (JObj ?new)"
    by (simp add: B)
  have 2: "ssm_params (snd (getSigningKeys R0 w_blank_keys)) ''/oidc/jwt-keys''
     = Some (write_json (JObj ?new))"
    by (simp add: B)
  have 3: "keygen_log (snd (getSigningKeys R0 w_blank_keys)) = [rsa_request]"
    by (simp add: B rsa_request_def)
  have 4: "getSigningKeys R0 w_stored_keys
     = (Inr (JObj sample_keys),
        w_stored_keys\<lparr>ssm_log := [GetParameterCommand ''/oidc/jwt-keys'' True]\<rparr>)"
    using S by simp
  from 1 2 3 4 show ?thesis by (intro conjI)
qed

subsection \<open>A create request for a key that exists is refused without a write\<close>

lemma settledI:
  "out = (Inr (invalid_request R d), w\<lparr>db_log := db_log w @ cmds\<rparr>)
   \<Longrightarrow> list_all (\<lambda>c. \<not> is_write c) cmds
   \<Longrightarrow> \<exists>r cmds. out = (r, w\<lparr>db_log := db_log w @ cmds\<rparr>)
         \<and> list_all (\<lambda>c. \<not> is_write c) cmds
         \<and> (case r of Inl e \<Rightarrow> \<not> C | Inr resp \<Rightarrow> (\<exists>d. resp = invalid_request R d))"
  by (rule exI [where x = "Inr (invalid_request R d)"], rule exI [where x = cmds]) auto

lemma settledI0:
  "out = (Inr (invalid_request R d), w)
   \<Longrightarrow> \<exists>r cmds. out = (r, w\<lparr>db_log := db_log w @ cmds\<rparr>)
         \<and> list_all (\<lambda>c. \<not> is_write c) cmds
         \<and> (case r of Inl e \<Rightarrow> \<not> C | Inr resp \<Rightarrow> (\<exists>d. resp = invalid_request R d))"
  by (rule settledI [where cmds = "[]"]) simp_all

lemma thrownI:
  "out = (Inl e, w) \<Longrightarrow> \<not> C
   \<Longrightarrow> \<exists>r cmds. out = (r, w\<lparr>db_log := db_log w @ cmds\<rparr>)
         \<and> list_all (\<lambda>c. \<not> is_write c) cmds
         \<and> (case r of Inl e \<Rightarrow> \<not> C | Inr resp \<Rightarrow> (\<exists>d. resp = invalid_request R d))"
  by (rule exI [where x = "Inl e"], rule exI [where x = "[]"]) simp

lemma not_converts: "to_string R v = Inl e \<Longrightarrow> \<not> converts R v"
  by (simp add: converts_def)

lemma not_compares_length: "length_lt R v n = Inl e \<Longrightarrow> \<not> compares_length R v n"
  by (simp add: compares_length_def)

lemma handleCreateUser_taken:
  assumes taken: "filter (\<lambda>row. map_of row ''username'' = Some (obj_get ev ''username''))
                    (tables w Users) \<noteq> []"
  shows "\<exists>r cmds. handleCreateUser R ev w = (r, w\<lparr>db_log := db_log w @ cmds\<rparr>)
         \<and> list_all (\<lambda>c. \<not> is_write c) cmds
         \<and> (case r of
              Inl e \<Rightarrow> \<not> (converts R (obj_get ev ''username'') \<and> converts R (obj_get ev ''email'')
                           \<and> compares_length R (obj_get ev ''password'') 8)
            | Inr resp \<Rightarrow> (\<exists>d. resp = invalid_request R d))"
proof -
  let ?u = "obj_get ev ''username''" and ?p = "obj_get ev ''password''"
    and ?e = "obj_get ev ''email''"
  note defs = handleCreateUser_def Let_def regex_test_def lift_def bind_def ret_def throw_def
    getUserByUsername_def queryItems_def
  have split_sum: "\<And>x :: jserr + string. (\<exists>e. x = Inl e) \<or> (\<exists>s. x = Inr s)"
    by (metis sum.exhaust)
  have split_bool: "\<And>x :: jserr + bool. (\<exists>e. x = Inl e) \<or> x = Inr True \<or> x = Inr False"
    by (metis sum.exhaust)
  consider (missing) "\<not> truthy ?u \<or> \<not> truthy ?p \<or> \<not> truthy ?e"
    | (u_throws) err where "truthy ?u" "truthy ?p" "truthy ?e" "to_string R ?u = Inl err"
    | (name) us where "truthy ?u" "truthy ?p" "truthy ?e" "to_string R ?u = Inr us"
        "\<not> ident_ok 3 50 us"
    | (e_throws) us err where "truthy ?u" "truthy ?p" "truthy ?e" "to_string R ?u = Inr us"
        "ident_ok 3 50 us" "to_string R ?e = Inl err"
    | (email) us es where "truthy ?u" "truthy ?p" "truthy ?e" "to_string R ?u = Inr us"
        "ident_ok 3 50 us" "to_string R ?e = Inr es" "\<not> email_ok es"
    | (p_throws) us es err where "truthy ?u" "truthy ?p" "truthy ?e" "to_string R ?u = Inr us"
        "ident_ok 3 50 us" "to_string R ?e = Inr es" "email_ok es" "length_lt R ?p 8 = Inl err"
    | (short) us es where "truthy ?u" "truthy ?p" "truthy ?e" "to_string R ?u = Inr us"
        "ident_ok 3 50 us" "to_string R ?e = Inr es" "email_ok es" "length_lt R ?p 8 = Inr True"
    | (query) us es where "truthy ?u" "truthy ?p" "truthy ?e" "to_string R ?u = Inr us"
        "ident_ok 3 50 us" "to_string R ?e = Inr es" "email_ok es" "length_lt R ?p 8 = Inr False"
    using split_sum [of "to_string R ?u"] split_sum [of "to_string R ?e"]
      split_bool [of "length_lt R ?p 8"]
    by blast
  then show ?thesis
  proof cases
    case missing
    then show ?thesis
      by (intro settledI0) (simp add: handleCreateUser_def Let_def ret_def split del: if_split)
  next
    case u_throws
    then show ?thesis
      by (intro thrownI) (simp_all add: defs not_converts split del: if_split)
  next
    case name
    then show ?thesis
      by (intro settledI0) (simp add: defs split del: if_split)
  next
    case e_throws
    then show ?thesis
      by (intro thrownI) (simp_all add: defs not_converts split del: if_split)
  next
    case email
    then show ?thesis
      by (intro settledI0) (simp add: defs split del: if_split)
  next
    case p_throws
    then show ?thesis
      by (intro thrownI) (simp_all add: defs not_compares_length split del: if_split)
  next
    case short
    then show ?thesis
      by (intro settledI0) (simp add: defs split del: if_split)
  next
    case query
    obtain row rest
      where rows: "filter (\<lambda>row. map_of row ''username'' = Some ?u) (tables w Users)
                   = row # rest"
      using taken by (cases "filter (\<lambda>row. map_of row ''username'' = Some ?u) (tables w Users)") auto
    show ?thesis
      by (rule settledI [where cmds = "[QueryCommand Users ''username-index'' ''username'' ?u]"])
        (simp_all add: defs query rows split del: if_split)
  qed
qed

lemma validate_uris_outcome:
  "(case validate_uris R uris of
      Inl e \<Rightarrow> \<not> list_all (converts R) uris
    | Inr None \<Rightarrow> True
    | Inr (Some r) \<Rightarrow> (\<exists>d. r = invalid_request R d))"
proof (induction uris)
  case Nil
  show ?case by simp
next
  case (Cons uri uris)
  show ?case
  proof (cases "to_string R uri")
    case (Inl e)
    then show ?thesis by (simp add: converts_def)
  next
    case (Inr s)
    then have "converts R uri" by (simp add: converts_def)
    with Cons Inr show ?thesis
      by (cases "url_protocol R s") (auto split: sum.splits option.splits)
  qed
qed

lemma check_redirect_uris_outcome:
  "(\<exists>e. check_redirect_uris R v = Inl e \<and> \<not> uris_convert R v)
   \<or> check_redirect_uris R v = Inr None
   \<or> (\<exists>d. check_redirect_uris R v = Inr (Some (invalid_request R d)))"
proof (cases v)
  case (JArr uris)
  show ?thesis
    using validate_uris_outcome [of R uris]
    by (auto simp: JArr check_redirect_uris_def split: sum.splits option.splits)
qed (auto simp: check_redirect_uris_def)

lemma handleCreateClient_taken:
  assumes taken: "find (matches_key [(''client_id'', obj_get ev ''client_id'')]) (tables w Clients)
                  = Some row"
  shows "\<exists>r cmds. handleCreateClient R ev w = (r, w\<lparr>db_log := db_log w @ cmds\<rparr>)
         \<and> list_all (\<lambda>c. \<not> is_write c) cmds
         \<and> (case r of
              Inl e \<Rightarrow> \<not> (converts R (obj_get ev ''client_id'')
                           \<and> uris_convert R (obj_get ev ''redirect_uris''))
            | Inr resp \<Rightarrow> (\<exists>d. resp = invalid_request R d))"
proof -
  let ?c = "obj_get ev ''client_id''" and ?uris = "obj_get ev ''redirect_uris''"
  note defs = handleCreateClient_def Let_def regex_test_def lift_def bind_def ret_def throw_def
    getClientById_def getItem_def
  let ?present = "truthy ?c \<and> truthy (obj_get ev ''client_secret'')
      \<and> truthy ?uris \<and> truthy (obj_get ev ''name'')"
  have split_sum: "\<And>x :: jserr + string. (\<exists>e. x = Inl e) \<or> (\<exists>s. x = Inr s)"
    by (metis sum.exhaust)
  from check_redirect_uris_outcome [of R ?uris] split_sum [of "to_string R ?c"]
  consider (missing) "\<not> ?present"
    | (c_throws) err where "?present" "to_string R ?c = Inl err"
    | (format) cs where "?present" "to_string R ?c = Inr cs" "\<not> ident_ok 3 100 cs"
    | (uris_throw) cs err where "?present" "to_string R ?c = Inr cs" "ident_ok 3 100 cs"
        "check_redirect_uris R ?uris = Inl err" "\<not> uris_convert R ?uris"
    | (uris) cs d where "?present" "to_string R ?c = Inr cs" "ident_ok 3 100 cs"
        "check_redirect_uris R ?uris = Inr (Some (invalid_request R d))"
    | (lookup) cs where "?present" "to_string R ?c = Inr cs" "ident_ok 3 100 cs"
        "check_redirect_uris R ?uris = Inr None"
    by blast
  then show ?thesis
  proof cases
    case missing
    then have "\<not> truthy ?c \<or> \<not> truthy (obj_get ev ''client_secret'')
      \<or> \<not> truthy ?uris \<or> \<not> truthy (obj_get ev ''name'')"
      by auto
    then show ?thesis
      by (intro settledI0) (simp add: handleCreateClient_def Let_def ret_def split del: if_split)
  next
    case c_throws
    then show ?thesis
      by (intro thrownI) (simp_all add: defs not_converts split del: if_split)
  next
    case format
    then show ?thesis
      by (intro settledI0) (simp add: defs split del: if_split)
  next
    case uris_throw
    then show ?thesis
      by (intro thrownI) (simp_all add: defs split del: if_split)
  next
    case uris
    then show ?thesis
      by (intro settledI0 [where d = d]) (simp add: defs split del: if_split)
  next
    case lookup
    then show ?thesis
      by (intro settledI [where cmds = "[GetCommand Clients [(''client_id'', ?c)]]"])
        (simp_all add: defs taken split del: if_split)
  qed
qed

lemma handleCreateApplication_taken:
  assumes given: "truthy (obj_get ev ''application_id'')"
    and taken: "find (matches_key [(''application_id'', obj_get ev ''application_id'')])
                  (tables w Applications) = Some row"
  shows "\<exists>r cmds. handleCreateApplication R ev w = (r, w\<lparr>db_log := db_log w @ cmds\<rparr>)
         \<and> list_all (\<lambda>c. \<not> is_write c) cmds
         \<and> (case r of
              Inl e \<Rightarrow> \<not> converts R (obj_get ev ''application_id'')
            | Inr resp \<Rightarrow> (\<exists>d. resp = invalid_request R d))"
proof -
  let ?a = "obj_get ev ''application_id''"
  note defs = handleCreateApplication_def Let_def regex_test_def lift_def bind_def ret_def
    throw_def getClientById_def getApplicationById_def getItem_def
  let ?present = "truthy (obj_get ev ''client_id'') \<and> truthy (obj_get ev ''name'')"
  let ?client = "find (matches_key [(''client_id'', obj_get ev ''client_id'')]) (tables w Clients)"
  have split_sum: "\<And>x :: jserr + string. (\<exists>e. x = Inl e) \<or> (\<exists>s. x = Inr s)"
    by (metis sum.exhaust)
  from split_sum [of "to_string R ?a"]
  consider (missing) "\<not> ?present"
    | (a_throws) err where "?present" "to_string R ?a = Inl err"
    | (format) s where "?present" "to_string R ?a = Inr s" "\<not> ident_ok 3 100 s"
    | (no_client) s where "?present" "to_string R ?a = Inr s" "ident_ok 3 100 s" "?client = None"
    | (lookup) s cl where "?present" "to_string R ?a = Inr s" "ident_ok 3 100 s"
        "?client = Some cl"
    by blast
  then show ?thesis
  proof cases
    case missing
    then have "\<not> truthy (obj_get ev ''client_id'') \<or> \<not> truthy (obj_get ev ''name'')"
      by auto
    then show ?thesis
      by (intro settledI0) (simp add: handleCreateApplication_def Let_def ret_def split del: if_split)
  next
    case a_throws
    then show ?thesis
      by (intro thrownI) (simp_all add: defs given not_converts split del: if_split)
  next
    case format
    then show ?thesis
      by (intro settledI0) (simp add: defs given split del: if_split)
  next
    case no_client
    then show ?thesis
      by (intro settledI [where cmds = "[GetCommand Clients [(''client_id'', obj_get ev ''client_id'')]]"])
        (simp_all add: defs given split del: if_split)
  next
    case lookup
    then show ?thesis
      by (intro settledI [where cmds = "[GetCommand Clients [(''client_id'', obj_get ev ''client_id'')],
            GetCommand Applications [(''application_id'', ?a)]]"])
        (simp_all add: defs given taken split del: if_split)
  qed
qed

lemma handleCreateUserApplication_taken:
  assumes taken: "find (matches_key [(''user_id'', obj_get ev ''user_id''),
                     (''application_id'', obj_get ev ''application_id'')])
                    (tables w UserApplications) = Some row"
  shows "\<exists>r cmds. handleCreateUserApplication R ev w = (r, w\<lparr>db_log := db_log w @ cmds\<rparr>)
         \<and> list_all (\<lambda>c. \<not> is_write c) cmds
         \<and> (case r of Inl e \<Rightarrow> \<not> True | Inr resp \<Rightarrow> (\<exists>d. resp = invalid_request R d))"
proof -
  note defs = handleCreateUserApplication_def Let_def lift_def bind_def ret_def getUserById_def
        getApplicationById_def getUserApplication_def getItem_def
  let ?present = "truthy (obj_get ev ''user_id'') \<and> truthy (obj_get ev ''application_id'')"
  let ?user = "find (matches_key [(''user_id'', obj_get ev ''user_id'')]) (tables w Users)"
  let ?app = "find (matches_key [(''application_id'', obj_get ev ''application_id'')])
                (tables w Applications)"
  consider (missing) "\<not> ?present"
    | (no_user) "?present" "?user = None"
    | (no_app) usr where "?present" "?user = Some usr" "?app = None"
    | (lookup) usr app where "?present" "?user = Some usr" "?app = Some app"
    by blast
  then show ?thesis
  proof cases
    case missing
    then have "\<not> truthy (obj_get ev ''user_id'') \<or> \<not> truthy (obj_get ev ''application_id'')"
      by auto
    then show ?thesis
      by (intro settledI0) (simp add: handleCreateUserApplication_def Let_def ret_def split del: if_split)
  next
    case no_user
    then show ?thesis
      by (intro settledI [where cmds = "[GetCommand Users [(''user_id'', obj_get ev ''user_id'')]]"])
        (simp_all add: defs split del: if_split)
  next
    case no_app
    then show ?thesis
      by (intro settledI [where cmds = "[GetCommand Users [(''user_id'', obj_get ev ''user_id'')],
            GetCommand Applications [(''application_id'', obj_get ev ''application_id'')]]"])
        (simp_all add: defs split del: if_split)
  next
    case lookup
    then show ?thesis
      by (intro settledI [where cmds = "[GetCommand Users [(''user_id'', obj_get ev ''user_id'')],
            GetCommand Applications [(''application_id'', obj_get ev ''application_id'')],
            GetCommand UserApplications [(''user_id'', obj_get ev ''user_id''),
              (''application_id'', obj_get ev ''application_id'')]]"])
        (simp_all add: defs taken split del: if_split)
  qed
qed

lemma catch_settled:
  assumes "\<exists>r cmds. m w = (r, w\<lparr>db_log := db_log w @ cmds\<rparr>)
         \<and> list_all (\<lambda>c. \<not> is_write c) cmds
         \<and> (case r of Inl e \<Rightarrow> \<not> C | Inr resp \<Rightarrow> (\<exists>d. resp = invalid_request R d))"
  shows "(\<exists>cmds. snd (catch_all R m w) = w\<lparr>db_log := db_log w @ cmds\<rparr>
            \<and> list_all (\<lambda>c. \<not> is_write c) cmds)
       \<and> tables (snd (catch_all R m w)) = tables w
       \<and> (C \<longrightarrow> statusCode (fst (catch_all R m w)) = 400
            \<and> (\<exists>d. body (fst (catch_all R m w)) =
                  json_stringify R (JObj [(''error'', JStr ''invalid_request''),
                                          (''error_description'', JStr d)])))"
proof -
  from assms obtain r cmds where run: "m w = (r, w\<lparr>db_log := db_log w @ cmds\<rparr>)"
    and reads: "list_all (\<lambda>c. \<not> is_write c) cmds"
    and r: "case r of Inl e \<Rightarrow> \<not> C | Inr resp \<Rightarrow> (\<exists>d. resp = invalid_request R d)"
    by blast
  show ?thesis
  proof (cases r)
    case (Inl e)
    with r have "\<not> C" by simp
    with reads show ?thesis
      by (auto simp: catch_all_def run Inl)
  next
    case (Inr resp)
    with r obtain d where "resp = invalid_request R d" by auto
    with reads show ?thesis
      by (auto simp: catch_all_def run Inr invalid_request_def createErrorResponse_def
          createResponse_def)
  qed
qed

lemma dispatch_createUser:
  "obj_get ev ''operation'' = JStr ''createUser''
   \<Longrightarrow> management_user_handler R (JObj ev) = catch_all R (handleCreateUser R ev)"
  by (simp add: management_user_handler_def destructure_def lift_def bind_ret Let_def)

lemma dispatch_createClient:
  "obj_get ev ''operation'' = JStr ''createClient''
   \<Longrightarrow> management_client_handler R (JObj ev) = catch_all R (handleCreateClient R ev)"
  by (simp add: management_client_handler_def destructure_def lift_def bind_ret Let_def)

lemma dispatch_createApplication:
  "obj_get ev ''operation'' = JStr ''createApplication''
   \<Longrightarrow> management_application_handler R (JObj ev) = catch_all R (handleCreateApplication R ev)"
  by (simp add: management_application_handler_def destructure_def lift_def bind_ret Let_def)

lemma dispatch_createUserApplication:
  "obj_get ev ''operation'' = JStr ''createUserApplication''
   \<Longrightarrow> management_user_application_handler R (JObj ev)
       = catch_all R (handleCreateUserApplication R ev)"
  by (simp add: management_user_application_handler_def destructure_def lift_def bind_ret Let_def)

text \<open>
  Claim C4, as amended. Take a create request whose unique key is already stored: the
  \<open>username\<close> of the event is the username of a stored user (\<open>createUser\<close>); the
  \<open>client_id\<close> of the event is the key of a stored client (\<open>createClient\<close>); the
  \<open>application_id\<close> of the event is truthy and is the key of a stored application
  (\<open>createApplication\<close>); the \<open>user_id\<close> and the \<open>application_id\<close> of the event
  are the key of a stored mapping (\<open>createUserApplication\<close>). Then the handler performs
  no write: the world afterwards is the world before with read commands added to the log,
  and every table is as it was. When moreover the conversions that the handler applies to
  the event do not throw, the status is 400 and the body is the serialization of the error
  \<open>invalid_request\<close> with a description. The conversions are: of the username and the
  email to strings and the comparison of the password's length with 8
  (\<open>createUser\<close>); of the \<open>client_id\<close> and of each member of an array of redirect
  URIs to strings (\<open>createClient\<close>); of the \<open>application_id\<close> to a string
  (\<open>createApplication\<close>); none for \<open>createUserApplication\<close>.
\<close>

theorem create_existing_key_rejected:
  "(obj_get ev ''operation'' = JStr ''createUser''
      \<and> filter (\<lambda>row. map_of row ''username'' = Some (obj_get ev ''username''))
            (tables w Users) \<noteq> []
    \<longrightarrow> (\<exists>cmds. snd (management_user_handler R (JObj ev) w) = w\<lparr>db_log := db_log w @ cmds\<rparr>
              \<and> list_all (\<lambda>c. \<not> is_write c) cmds)
        \<and> tables (snd (management_user_handler R (JObj ev) w)) = tables w
        \<and> (converts R (obj_get ev ''username'') \<and> converts R (obj_get ev ''email'')
            \<and> compares_length R (obj_get ev ''password'') 8
          \<longrightarrow> statusCode (fst (management_user_handler R (JObj ev) w)) = 400
            \<and> (\<exists>d. body (fst (management_user_handler R (JObj ev) w)) =
                  json_stringify R (JObj [(''error'', JStr ''invalid_request''),
                                          (''error_description'', JStr d)]))))
   \<and> (obj_get ev ''operation'' = JStr ''createClient''
      \<and> find (matches_key [(''client_id'', obj_get ev ''client_id'')]) (tables w Clients)
          = Some client
    \<longrightarrow> (\<exists>cmds. snd (management_client_handler R (JObj ev) w) = w\<lparr>db_log := db_log w @ cmds\<rparr>
              \<and> list_all (\<lambda>c. \<not> is_write c) cmds)
        \<and> tables (snd (management_client_handler R (JObj ev) w)) = tables w
        \<and> (converts R (obj_get ev ''client_id'') \<and> uris_convert R (obj_get ev ''redirect_uris'')
          \<longrightarrow> statusCode (fst (management_client_handler R (JObj ev) w)) = 400
            \<and> (\<exists>d. body (fst (management_client_handler R (JObj ev) w)) =
                  json_stringify R (JObj [(''error'', JStr ''invalid_request''),
                                          (''error_description'', JStr d)]))))
   \<and> (obj_get ev ''operation'' = JStr ''createApplication''
      \<and> truthy (obj_get ev ''application_id'')
      \<and> find (matches_key [(''application_id'', obj_get ev ''application_id'')])
            (tables w Applications) = Some application
    \<longrightarrow> (\<exists>cmds. snd (management_application_handler R (JObj ev) w) = w\<lparr>db_log := db_log w @ cmds\<rparr>
              \<and> list_all (\<lambda>c. \<not> is_write c) cmds)
        \<and> tables (snd (management_application_handler R (JObj ev) w)) = tables w
        \<and> (converts R (obj_get ev ''application_id'')
          \<longrightarrow> statusCode (fst (management_application_handler R (JObj ev) w)) = 400
            \<and> (\<exists>d. body (fst (management_application_handler R (JObj ev) w)) =
                  json_stringify R (JObj [(''error'', JStr ''invalid_request''),
                                          (''error_description'', JStr d)]))))
   \<and> (obj_get ev ''operation'' = JStr ''createUserApplication''
      \<and> find (matches_key [(''user_id'', obj_get ev ''user_id''),
                             (''application_id'', obj_get ev ''application_id'')])
            (tables w UserApplications) = Some mapping
    \<longrightarrow> (\<exists>cmds. snd (management_user_application_handler R (JObj ev) w) = w\<lparr>db_log := db_log w @ cmds\<rparr>
              \<and> list_all (\<lambda>c. \<not> is_write c) cmds)
        \<and> tables (snd (management_user_application_handler R (JObj ev) w)) = tables w
        \<and> statusCode (fst (management_user_application_handler R (JObj ev) w)) = 400
            \<and> (\<exists>d. body (fst (management_user_application_handler R (JObj ev) w)) =
                  json_stringify R (JObj [(''error'', JStr ''invalid_request''),
                                          (''error_description'', JStr d)])))"
proof (intro conjI impI; (elim conjE)?)
  assume op: "obj_get ev ''operation'' = JStr ''createUser''"
    and taken: "filter (\<lambda>row. map_of row ''username'' = Some (obj_get ev ''username''))
            (tables w Users) \<noteq> []"
  note run = catch_settled [where m = "handleCreateUser R ev" and w = w, OF handleCreateUser_taken [OF taken, of R], folded dispatch_createUser [OF op]]
  from run show "\<exists>cmds. snd (management_user_handler R (JObj ev) w) = w\<lparr>db_log := db_log w @ cmds\<rparr>
              \<and> list_all (\<lambda>c. \<not> is_write c) cmds"
    by (rule conjunct1)
  from run show "tables (snd (management_user_handler R (JObj ev) w)) = tables w"
    by simp
  assume "converts R (obj_get ev ''username'')" "converts R (obj_get ev ''email'')"
    "compares_length R (obj_get ev ''password'') 8"
  with run show "statusCode (fst (management_user_handler R (JObj ev) w)) = 400"
    by simp
  from run \<open>converts R (obj_get ev ''username'')\<close> \<open>converts R (obj_get ev ''email'')\<close>
    \<open>compares_length R (obj_get ev ''password'') 8\<close>
  show "\<exists>d. body (fst (management_user_handler R (JObj ev) w)) =
                  json_stringify R (JObj [(''error'', JStr ''invalid_request''),
                                          (''error_description'', JStr d)])"
    by simp
next
  assume op: "obj_get ev ''operation'' = JStr ''createClient''"
    and taken: "find (matches_key [(''client_id'', obj_get ev ''client_id'')]) (tables w Clients)
          = Some client"
  note run = catch_settled [where m = "handleCreateClient R ev" and w = w,
      OF handleCreateClient_taken [OF taken, of R], folded dispatch_createClient [OF op]]
  from run show "\<exists>cmds. snd (management_client_handler R (JObj ev) w) = w\<lparr>db_log := db_log w @ cmds\<rparr>
              \<and> list_all (\<lambda>c. \<not> is_write c) cmds"
    by (rule conjunct1)
  from run show "tables (snd (management_client_handler R (JObj ev) w)) = tables w"
    by simp
  assume "converts R (obj_get ev ''client_id'')" "uris_convert R (obj_get ev ''redirect_uris'')"
  with run show "statusCode (fst (management_client_handler R (JObj ev) w)) = 400"
    by simp
  from run \<open>converts R (obj_get ev ''client_id'')\<close>
    \<open>uris_convert R (obj_get ev ''redirect_uris'')\<close>
  show "\<exists>d. body (fst (management_client_handler R (JObj ev) w)) =
                  json_stringify R (JObj [(''error'', JStr ''invalid_request''),
                                          (''error_description'', JStr d)])"
    by simp
next
  assume op: "obj_get ev ''operation'' = JStr ''createApplication''"
    and given: "truthy (obj_get ev ''application_id'')"
    and taken: "find (matches_key [(''application_id'', obj_get ev ''application_id'')])
            (tables w Applications) = Some application"
  note run = catch_settled [where m = "handleCreateApplication R ev" and w = w,
      OF handleCreateApplication_taken [OF given taken, of R],
      folded dispatch_createApplication [OF op]]
  from run show "\<exists>cmds. snd (management_application_handler R (JObj ev) w) = w\<lparr>db_log := db_log w @ cmds\<rparr>
              \<and> list_all (\<lambda>c. \<not> is_write c) cmds"
    by (rule conjunct1)
  from run show "tables (snd (management_application_handler R (JObj ev) w)) = tables w"
    by simp
  assume "converts R (obj_get ev ''application_id'')"
  with run show "statusCode (fst (management_application_handler R (JObj ev) w)) = 400"
    by simp
  from run \<open>converts R (obj_get ev ''application_id'')\<close>
  show "\<exists>d. body (fst (management_application_handler R (JObj ev) w)) =
                  json_stringify R (JObj [(''error'', JStr ''invalid_request''),
                                          (''error_description'', JStr d)])"
    by simp
next
  assume op: "obj_get ev ''operation'' = JStr ''createUserApplication''"
    and taken: "find (matches_key [(''user_id'', obj_get ev ''user_id''),
                             (''application_id'', obj_get ev ''application_id'')])
            (tables w UserApplications) = Some mapping"
  note run = catch_settled [where m = "handleCreateUserApplication R ev" and w = w,
      OF handleCreateUserApplication_taken [OF taken, of R],
      folded dispatch_createUserApplication [OF op]]
  from run show "\<exists>cmds. snd (management_user_application_handler R (JObj ev) w) = w\<lparr>db_log := db_log w @ cmds\<rparr>
              \<and> list_all (\<lambda>c. \<not> is_write c) cmds"
    by (rule conjunct1)
  from run show "tables (snd (management_user_application_handler R (JObj ev) w)) = tables w"
    by simp
  from run show "statusCode (fst (management_user_application_handler R (JObj ev) w)) = 400"
    by simp
  from run
  show "\<exists>d. body (fst (management_user_application_handler R (JObj ev) w)) =
                  json_stringify R (JObj [(''error'', JStr ''invalid_request''),
                                          (''error_description'', JStr d)])"
    by simp
qed


text \<open>
  The claim as stated fails for a request that the handler cannot convert: with the
  username of a stored user and an email that is an object with a property of its own
  named \<open>toString\<close>, the pattern test of the email throws and the answer is 500
  \<open>server_error\<close>.
\<close>

theorem create_existing_key_unconvertible_counterexample:
  "find (matches_key [(''username'', JStr ''bob'')]) (tables w1 Users) = Some sample_user
   \<and> statusCode (fst (management_user_handler R0
          (JObj [(''operation'', JStr ''createUser''), (''username'', JStr ''bob''),
                 (''password'', JStr ''Passw0rd!''),
                 (''email'', JObj [(''toString'', JNum 1)])]) w1)) = 500
   \<and> body (fst (management_user_handler R0
          (JObj [(''operation'', JStr ''createUser''), (''username'', JStr ''bob''),
                 (''password'', JStr ''Passw0rd!''),
                 (''email'', JObj [(''toString'', JNum 1)])]) w1))
     = write_json (JObj [(''error'', JStr ''server_error''),
         (''error_description'',
          JStr ''Internal server error: Cannot convert object to primitive value'')])"
proof -
  have name: "ident_ok 3 50 ''bob''" by code_simp
  have stored: "find (matches_key [(''username'', JStr ''bob'')]) (tables w1 Users)
      = Some sample_user"
    by (simp add: w1_def w0_def sample_user_def matches_key_def)
  have kept: "to_string R0 (JStr ''bob'') = Inr ''bob''"
    by (simp add: to_string_def)
  have thrown: "to_string R0 (JObj [(''toString'', JNum 1)])
      = Inl (JsError ''TypeError'' ''Cannot convert object to primitive value'')"
    by (simp add: to_string_def R0_def)
  have run: "management_user_handler R0
          (JObj [(''operation'', JStr ''createUser''), (''username'', JStr ''bob''),
                 (''password'', JStr ''Passw0rd!''),
                 (''email'', JObj [(''toString'', JNum 1)])]) w1
      = (createErrorResponse R0 ''server_error''
           ''Internal server error: Cannot convert object to primitive value'' 500, w1)"
    by (simp add: management_user_handler_def destructure_def handleCreateUser_def Let_def
        regex_test_def lift_def bind_def ret_def throw_def catch_all_def obj_get_def name thrown
        kept split del: if_split)
  show ?thesis
    unfolding run by (simp add: stored createErrorResponse_def createResponse_def R0_def)
qed

theorem create_existing_key_rejected_witness:
  "filter (\<lambda>row. map_of row ''username'' = Some (JStr ''bob'')) (tables w1 Users) \<noteq> []
   \<and> tables (snd (management_user_handler R0
          (JObj [(''operation'', JStr ''createUser''), (''username'', JStr ''bob''),
                 (''password'', JStr ''Passw0rd!''), (''email'', JStr ''bob@example.com'')]) w1))
       = tables w1
   \<and> statusCode (fst (management_user_handler R0
          (JObj [(''operation'', JStr ''createUser''), (''username'', JStr ''bob''),
                 (''password'', JStr ''Passw0rd!''), (''email'', JStr ''bob@example.com'')]) w1))
       = 400
   \<and> tables (snd (management_client_handler R0
          (JObj [(''operation'', JStr ''createClient''), (''client_id'', JStr ''web''),
                 (''client_secret'', JStr ''other''),
                 (''redirect_uris'', JArr [JStr ''https://x.example.com/cb'']),
                 (''name'', JStr ''Web 2'')]) w1))
       = tables w1
   \<and> statusCode (fst (management_client_handler R0
          (JObj [(''operation'', JStr ''createClient''), (''client_id'', JStr ''web''),
                 (''client_secret'', JStr ''other''),
                 (''redirect_uris'', JArr [JStr ''https://x.example.com/cb'']),
                 (''name'', JStr ''Web 2'')]) w1))
       = 400
   \<and> tables (snd (management_application_handler R0
          (JObj [(''operation'', JStr ''createApplication''), (''application_id'', JStr ''app-prod''),
                 (''client_id'', JStr ''web''), (''name'', JStr ''Again'')]) w1))
       = tables w1
   \<and> statusCode (fst (management_application_handler R0
          (JObj [(''operation'', JStr ''createApplication''), (''application_id'', JStr ''app-prod''),
                 (''client_id'', JStr ''web''), (''name'', JStr ''Again'')]) w1))
       = 400
   \<and> tables (snd (management_user_application_handler R0
          (JObj [(''operation'', JStr ''createUserApplication''), (''user_id'', JStr ''u-1''),
                 (''application_id'', JStr ''app-prod'')]) w1))
       = tables w1
   \<and> statusCode (fst (management_user_application_handler R0
          (JObj [(''operation'', JStr ''createUserApplication''), (''user_id'', JStr ''u-1''),
                 (''application_id'', JStr ''app-prod'')]) w1))
       = 400"
proof -
  let ?u = "[(''operation'', JStr ''createUser''), (''username'', JStr ''bob''),
                 (''password'', JStr ''Passw0rd!''), (''email'', JStr ''bob@example.com'')]"
  let ?c = "[(''operation'', JStr ''createClient''), (''client_id'', JStr ''web''),
                 (''client_secret'', JStr ''other''),
                 (''redirect_uris'', JArr [JStr ''https://x.example.com/cb'']),
                 (''name'', JStr ''Web 2'')]"
  let ?a = "[(''operation'', JStr ''createApplication''), (''application_id'', JStr ''app-prod''),
                 (''client_id'', JStr ''web''), (''name'', JStr ''Again'')]"
  let ?m = "[(''operation'', JStr ''createUserApplication''), (''user_id'', JStr ''u-1''),
                 (''application_id'', JStr ''app-prod'')]"
  have taken: "filter (\<lambda>row. map_of row ''username'' = Some (JStr ''bob'')) (tables w1 Users) \<noteq> []"
    by (simp add: w1_def w0_def sample_user_def)
  have user: "obj_get ?u ''operation'' = JStr ''createUser''
      \<and> filter (\<lambda>row. map_of row ''username'' = Some (obj_get ?u ''username''))
            (tables w1 Users) \<noteq> []"
    "converts R0 (obj_get ?u ''username'') \<and> converts R0 (obj_get ?u ''email'')
      \<and> compares_length R0 (obj_get ?u ''password'') 8"
    by (simp_all add: obj_get_def w1_def w0_def sample_user_def converts_def compares_length_def
        to_string_def length_lt_def)
  have client: "obj_get ?c ''operation'' = JStr ''createClient''
      \<and> find (matches_key [(''client_id'', obj_get ?c ''client_id'')]) (tables w1 Clients)
          = Some sample_client"
    "converts R0 (obj_get ?c ''client_id'') \<and> uris_convert R0 (obj_get ?c ''redirect_uris'')"
    by (simp_all add: obj_get_def w1_def w0_def sample_client_def matches_key_def converts_def
        to_string_def)
  have app: "obj_get ?a ''operation'' = JStr ''createApplication''
      \<and> truthy (obj_get ?a ''application_id'')
      \<and> find (matches_key [(''application_id'', obj_get ?a ''application_id'')])
            (tables w1 Applications) = Some sample_application"
    "converts R0 (obj_get ?a ''application_id'')"
    by (simp_all add: obj_get_def w1_def w0_def sample_application_def matches_key_def
        converts_def to_string_def)
  have mapping: "obj_get ?m ''operation'' = JStr ''createUserApplication''
      \<and> find (matches_key [(''user_id'', obj_get ?m ''user_id''),
                             (''application_id'', obj_get ?m ''application_id'')])
            (tables w1 UserApplications) = Some sample_mapping"
    by (simp add: obj_get_def w1_def w0_def sample_mapping_def matches_key_def)
  note T = create_existing_key_rejected [where R = R0 and w = w1]
  from T [where ev = ?u, THEN conjunct1] user
  have 1: "tables (snd (management_user_handler R0 (JObj ?u) w1)) = tables w1
      \<and> statusCode (fst (management_user_handler R0 (JObj ?u) w1)) = 400"
    by blast
  from T [where ev = ?c and client = sample_client, THEN conjunct2, THEN conjunct1] client
  have 2: "tables (snd (management_client_handler R0 (JObj ?c) w1)) = tables w1
      \<and> statusCode (fst (management_client_handler R0 (JObj ?c) w1)) = 400"
    by blast
  from T [where ev = ?a and application = sample_application,
      THEN conjunct2, THEN conjunct2, THEN conjunct1] app
  have 3: "tables (snd (management_application_handler R0 (JObj ?a) w1)) = tables w1
      \<and> statusCode (fst (management_application_handler R0 (JObj ?a) w1)) = 400"
    by blast
  from T [where ev = ?m and mapping = sample_mapping,
      THEN conjunct2, THEN conjunct2, THEN conjunct2] mapping
  have 4: "tables (snd (management_user_application_handler R0 (JObj ?m) w1)) = tables w1
      \<and> statusCode (fst (management_user_application_handler R0 (JObj ?m) w1)) = 400"
    by blast
  from taken 1 2 3 4 show ?thesis by blast
qed

subsection \<open>Creating a user\<close>

lemma ident_ok_nonempty: "ident_ok (Suc n) hi s \<Longrightarrow> s \<noteq> []"
  by (auto simp: ident_ok_def)

lemma email_ok_nonempty: "email_ok s \<Longrightarrow> s \<noteq> []"
  by (auto simp: email_ok_def Let_def)

lemma handleCreateUser_fresh:
  assumes u: "obj_get ev ''username'' = JStr u" and uok: "ident_ok 3 50 u"
    and e: "obj_get ev ''email'' = JStr e" and eok: "email_ok e"
    and p: "obj_get ev ''password'' = JStr p" and pok: "8 \<le> length p"
    and free: "filter (\<lambda>row. map_of row ''username'' = Some (JStr u)) (tables w Users) = []"
  shows "handleCreateUser R ev w =
     (let user = user_record (uuid_src R (uuid_reads w)) (JStr u)
                   (bcrypt_hash R p 10 (salt_src R (salt_reads w))) (JStr e)
                   (toISOString R (clock R (clock_reads w)))
                   (toISOString R (clock R (Suc (clock_reads w))))
      in (Inr (createResponse R 200
            (JObj [(''message'', JStr ''User created successfully''),
                   (''user'', JObj (obj_omit [''password_hash''] user))]) []),
          w\<lparr>tables := (tables w)(Users := put_rows Users user (tables w Users)),
            db_log := db_log w @ [QueryCommand Users ''username-index'' ''username'' (JStr u),
                                  PutCommand Users user],
            clock_reads := Suc (Suc (clock_reads w)),
            uuid_reads := Suc (uuid_reads w),
            salt_reads := Suc (salt_reads w)\<rparr>))"
proof -
  have ne: "u \<noteq> []" "e \<noteq> []" "p \<noteq> []"
    using uok eok pok by (auto simp: ident_ok_def numeral_3_eq_3 dest: email_ok_nonempty)
  have short: "\<not> length p < 8" using pok by simp
  show ?thesis
    unfolding handleCreateUser_def
    by (simp add: u e p ne uok eok short Let_def regex_test_def to_string_def length_lt_def
        lift_def bind_def ret_def getUserByUsername_def queryItems_def free createUser_string
        split del: if_split)
qed

text \<open>
  Claim C5. A \<open>createUser\<close> request is valid when its username, email and password are
  strings, the username and the email have the required form and the password has eight
  characters or more. For such a request whose username no stored user has, the handler
  answers 200 with the fixed headers; the body is the serialization of the message and the
  user with \<open>user_id\<close>, \<open>username\<close>,
  \<open>email\<close>, \<open>email_verified\<close>, \<open>created_at\<close> and \<open>updated_at\<close>, without
  \<open>password_hash\<close>; the record put into the users table is that user with the bcrypt
  hash of the password, and reading the table by the new \<open>user_id\<close> finds it.
\<close>

theorem create_user_persisted_without_hash:
  assumes "obj_get ev ''operation'' = JStr ''createUser''"
    and "obj_get ev ''username'' = JStr u" and "ident_ok 3 50 u"
    and "obj_get ev ''email'' = JStr e" and "email_ok e"
    and "obj_get ev ''password'' = JStr p" and "8 \<le> length p"
    and "filter (\<lambda>row. map_of row ''username'' = Some (JStr u)) (tables w Users) = []"
  shows "let uid = uuid_src R (uuid_reads w);
             hash = bcrypt_hash R p 10 (salt_src R (salt_reads w));
             created = toISOString R (clock R (clock_reads w));
             updated = toISOString R (clock R (Suc (clock_reads w)));
             user = user_record uid (JStr u) hash (JStr e) created updated;
             w' = snd (management_user_handler R (JObj ev) w)
         in statusCode (fst (management_user_handler R (JObj ev) w)) = 200
          \<and> body (fst (management_user_handler R (JObj ev) w)) =
              json_stringify R
                (JObj [(''message'', JStr ''User created successfully''),
                       (''user'', JObj [(''user_id'', JStr uid), (''username'', JStr u),
                                       (''email'', JStr e), (''email_verified'', JBool False),
                                       (''created_at'', JStr created),
                                       (''updated_at'', JStr updated)])])
          \<and> headers (fst (management_user_handler R (JObj ev) w)) =
              [(''Content-Type'', ''application/json''),
               (''Access-Control-Allow-Origin'', ''*''),
               (''Access-Control-Allow-Headers'', ''Content-Type,Authorization''),
               (''Access-Control-Allow-Methods'', ''GET,POST,OPTIONS'')]
          \<and> map_of user ''password_hash'' = Some (JStr hash)
          \<and> tables w' Users = put_rows Users user (tables w Users)
          \<and> find (matches_key [(''user_id'', JStr uid)]) (tables w' Users) = Some user
          \<and> db_log w' = db_log w @ [QueryCommand Users ''username-index'' ''username'' (JStr u),
                                      PutCommand Users user]"
proof -
  define user where "user = user_record (uuid_src R (uuid_reads w)) (JStr u)
                   (bcrypt_hash R p 10 (salt_src R (salt_reads w))) (JStr e)
                   (toISOString R (clock R (clock_reads w)))
                   (toISOString R (clock R (Suc (clock_reads w))))"
  have run: "management_user_handler R (JObj ev) w =
     (createResponse R 200
            (JObj [(''message'', JStr ''User created successfully''),
                   (''user'', JObj (obj_omit [''password_hash''] user))]) [],
          w\<lparr>tables := (tables w)(Users := put_rows Users user (tables w Users)),
            db_log := db_log w @ [QueryCommand Users ''username-index'' ''username'' (JStr u),
                                  PutCommand Users user],
            clock_reads := Suc (Suc (clock_reads w)),
            uuid_reads := Suc (uuid_reads w),
            salt_reads := Suc (salt_reads w)\<rparr>)"
    unfolding management_user_handler_def user_def
    by (simp add: destructure_def lift_def bind_def ret_def catch_all_def Let_def assms(1)
        handleCreateUser_fresh [OF assms(2-8)] split del: if_split)
  have key: "key_of Users user = [(''user_id'', JStr (uuid_src R (uuid_reads w)))]"
    by (simp add: key_of_def user_def user_record_def obj_get_def)
  have own: "matches_key [(''user_id'', JStr (uuid_src R (uuid_reads w)))] user"
    by (simp add: matches_key_def user_def user_record_def)
  have stored: "find (matches_key [(''user_id'', JStr (uuid_src R (uuid_reads w)))])
      (put_rows Users user (tables w Users)) = Some user"
    using find_put_rows [of Users user] own by (simp add: key)
  have shown: "obj_omit [''password_hash''] user =
      [(''user_id'', JStr (uuid_src R (uuid_reads w))), (''username'', JStr u),
       (''email'', JStr e), (''email_verified'', JBool False),
       (''created_at'', JStr (toISOString R (clock R (clock_reads w)))),
       (''updated_at'', JStr (toISOString R (clock R (Suc (clock_reads w)))))]"
    by (simp add: obj_omit_def user_def user_record_def)
  have hash: "map_of user ''password_hash''
      = Some (JStr (bcrypt_hash R p 10 (salt_src R (salt_reads w))))"
    by (simp add: user_def user_record_def)
  show ?thesis
    unfolding Let_def user_def [symmetric] run fst_conv snd_conv
    using stored hash by (simp add: shown createResponse_def obj_spread_def)
qed

theorem create_user_persisted_without_hash_witness:
  "statusCode (fst (management_user_handler R0
          (JObj [(''operation'', JStr ''createUser''), (''username'', JStr ''alice123''),
                 (''password'', JStr ''Passw0rd!''), (''email'', JStr ''a@example.com'')]) w1)) = 200
   \<and> body (fst (management_user_handler R0
          (JObj [(''operation'', JStr ''createUser''), (''username'', JStr ''alice123''),
                 (''password'', JStr ''Passw0rd!''), (''email'', JStr ''a@example.com'')]) w1))
     = json_stringify R0
         (JObj [(''message'', JStr ''User created successfully''),
                (''user'', JObj [(''user_id'', JStr (uuid_src R0 0)), (''username'', JStr ''alice123''),
                                (''email'', JStr ''a@example.com''), (''email_verified'', JBool False),
                                (''created_at'', JStr (toISOString R0 (clock R0 0))),
                                (''updated_at'', JStr (toISOString R0 (clock R0 (Suc 0))))])])
   \<and> find (matches_key [(''user_id'', JStr (uuid_src R0 0))])
        (tables (snd (management_user_handler R0
          (JObj [(''operation'', JStr ''createUser''), (''username'', JStr ''alice123''),
                 (''password'', JStr ''Passw0rd!''), (''email'', JStr ''a@example.com'')]) w1)) Users)
     = Some (user_record (uuid_src R0 0) (JStr ''alice123'')
               (bcrypt_hash R0 ''Passw0rd!'' 10 (salt_src R0 0)) (JStr ''a@example.com'')
               (toISOString R0 (clock R0 0)) (toISOString R0 (clock R0 (Suc 0))))"
proof -
  let ?ev = "[(''operation'', JStr ''createUser''), (''username'', JStr ''alice123''),
                 (''password'', JStr ''Passw0rd!''), (''email'', JStr ''a@example.com'')]"
  have 1: "obj_get ?ev ''operation'' = JStr ''createUser''"
    and 2: "obj_get ?ev ''username'' = JStr ''alice123''"
    and 4: "obj_get ?ev ''email'' = JStr ''a@example.com''"
    and 6: "obj_get ?ev ''password'' = JStr ''Passw0rd!''"
    by (simp_all add: obj_get_def)
  have 3: "ident_ok 3 50 ''alice123''" by code_simp
  have 5: "email_ok ''a@example.com''" by code_simp
  have 7: "8 \<le> length ''Passw0rd!''" by simp
  have 8: "filter (\<lambda>row. map_of row ''username'' = Some (JStr ''alice123'')) (tables w1 Users) = []"
    by (simp add: w1_def w0_def sample_user_def)
  have c: "clock_reads w1 = 0" "uuid_reads w1 = 0" "salt_reads w1 = 0"
    by (simp_all add: w1_def w0_def)
  from create_user_persisted_without_hash [OF 1 2 3 4 5 6 7 8, of R0, unfolded Let_def c]
  show ?thesis
    by blast
qed

subsection \<open>A password verified against the user just created\<close>








subsection \<open>An unsupported operation is rejected before the store is touched\<close>

lemma frame_missing:
  assumes "event \<noteq> JNull" and "event \<noteq> JUndefined" and "\<not> truthy (operation_of event)"
  shows "catch_all R (bind (lift (destructure event)) (\<lambda>ev.
          let operation = obj_get ev ''operation''
          in if \<not> truthy operation
             then ret (invalid_request R d1)
             else if operation = JStr o1 then h1 ev
             else if operation = JStr o2 then h2 ev
             else bind (lift (to_string R operation)) (\<lambda>s. ret (invalid_request R (d2 s))))) w
         = (createErrorResponse R ''invalid_request'' d1 400, w)"
  using assms
  by (cases event)
    (simp_all add: operation_of_def destructure_def catch_all_def bind_def lift_def ret_def
      obj_get_def invalid_request_def)

lemma frame_unknown:
  assumes "truthy (operation_of event)" and "operation_of event \<noteq> JStr o1"
    and "operation_of event \<noteq> JStr o2" and "to_string R (operation_of event) = Inr s"
  shows "catch_all R (bind (lift (destructure event)) (\<lambda>ev.
          let operation = obj_get ev ''operation''
          in if \<not> truthy operation
             then ret (invalid_request R d1)
             else if operation = JStr o1 then h1 ev
             else if operation = JStr o2 then h2 ev
             else bind (lift (to_string R operation)) (\<lambda>s. ret (invalid_request R (d2 s))))) w
         = (createErrorResponse R ''invalid_request'' (d2 s) 400, w)"
  using assms
  by (cases event)
    (simp_all add: operation_of_def destructure_def catch_all_def bind_def lift_def ret_def
      invalid_request_def)

text \<open>
  Claim C8, as amended. For every event other than \<open>null\<close>: when the operation is
  missing or falsy, each of the four handlers answers 400 \<open>invalid_request\<close> with
  the message that names its two operations; when the operation is truthy, is not one of
  the handler's two operations and converts to a string \<open>s\<close> (a string is its own
  conversion), the handler answers 400 \<open>invalid_request\<close> with
  \<open>Unknown operation: s\<close> and the names of its two operations. In both cases the
  world is left as it was: no command is sent to the key-value store.
\<close>

theorem unsupported_operation_rejected:
  assumes "event \<noteq> JNull" and "event \<noteq> JUndefined"
  shows "(\<not> truthy (operation_of event) \<longrightarrow>
       management_user_handler R event w =
         (createErrorResponse R ''invalid_request''
            ''Missing operation parameter. Valid operations: createUser, resetPassword'' 400, w)
     \<and> management_client_handler R event w =
         (createErrorResponse R ''invalid_request''
            ''Missing operation parameter. Valid operations: createClient, updateClient'' 400, w)
     \<and> management_application_handler R event w =
         (createErrorResponse R ''invalid_request''
            ''Missing operation parameter. Valid operations: createApplication, updateApplication''
            400, w)
     \<and> management_user_application_handler R event w =
         (createErrorResponse R ''invalid_request''
            ''Missing operation parameter. Valid operations: createUserApplication, updateUserApplication''
            400, w))
   \<and> (truthy (operation_of event) \<and> to_string R (operation_of event) = Inr s \<longrightarrow>
       (operation_of event \<notin> {JStr ''createUser'', JStr ''resetPassword''} \<longrightarrow>
        management_user_handler R event w =
          (createErrorResponse R ''invalid_request''
             (''Unknown operation: '' @ s @ ''. Valid operations: createUser, resetPassword'')
             400, w))
     \<and> (operation_of event \<notin> {JStr ''createClient'', JStr ''updateClient''} \<longrightarrow>
        management_client_handler R event w =
          (createErrorResponse R ''invalid_request''
             (''Unknown operation: '' @ s @ ''. Valid operations: createClient, updateClient'')
             400, w))
     \<and> (operation_of event \<notin> {JStr ''createApplication'', JStr ''updateApplication''} \<longrightarrow>
        management_application_handler R event w =
          (createErrorResponse R ''invalid_request''
             (''Unknown operation: '' @ s
                @ ''. Valid operations: createApplication, updateApplication'') 400, w))
     \<and> (operation_of event \<notin> {JStr ''createUserApplication'', JStr ''updateUserApplication''} \<longrightarrow>
        management_user_application_handler R event w =
          (createErrorResponse R ''invalid_request''
             (''Unknown operation: '' @ s
                @ ''. Valid operations: createUserApplication, updateUserApplication'') 400, w)))"
  unfolding management_user_handler_def management_client_handler_def
    management_application_handler_def management_user_application_handler_def
  using assms by (auto simp: frame_missing frame_unknown)

text \<open>
  The claim as stated fails on the event \<open>null\<close>: destructuring it throws, and the
  handler's \<open>catch\<close> answers 500.
\<close>

theorem null_event_counterexample:
  "statusCode (fst (management_user_handler R0 JNull w0)) = 500
   \<and> statusCode (fst (management_client_handler R0 JNull w0)) = 500
   \<and> statusCode (fst (management_application_handler R0 JNull w0)) = 500
   \<and> statusCode (fst (management_user_application_handler R0 JNull w0)) = 500"
  by (simp add: management_user_handler_def management_client_handler_def
    management_application_handler_def management_user_application_handler_def
    destructure_def catch_all_def bind_def lift_def throw_def createErrorResponse_def
    createResponse_def)

theorem unsupported_operation_rejected_witness:
  "management_user_handler R0 (JObj [(''username'', JStr ''bob'')]) w1 =
     (createErrorResponse R0 ''invalid_request''
        ''Missing operation parameter. Valid operations: createUser, resetPassword'' 400, w1)
   \<and> management_user_application_handler R0 (JStr ''createUserApplication'') w1 =
     (createErrorResponse R0 ''invalid_request''
        ''Missing operation parameter. Valid operations: createUserApplication, updateUserApplication''
        400, w1)
   \<and> management_client_handler R0 (JObj [(''operation'', JStr ''deleteClient'')]) w1 =
     (createErrorResponse R0 ''invalid_request''
        ''Unknown operation: deleteClient. Valid operations: createClient, updateClient'' 400, w1)
   \<and> management_application_handler R0 (JObj [(''operation'', JStr ''createUser'')]) w1 =
     (createErrorResponse R0 ''invalid_request''
        ''Unknown operation: createUser. Valid operations: createApplication, updateApplication''
        400, w1)"
  using unsupported_operation_rejected [where event = "JObj [(''username'', JStr ''bob'')]"
      and R = R0 and w = w1]
    unsupported_operation_rejected [where event = "JStr ''createUserApplication''"
      and R = R0 and w = w1]
    unsupported_operation_rejected [where event = "JObj [(''operation'', JStr ''deleteClient'')]"
      and R = R0 and w = w1 and s = "''deleteClient''"]
    unsupported_operation_rejected [where event = "JObj [(''operation'', JStr ''createUser'')]"
      and R = R0 and w = w1 and s = "''createUser''"]
  by (simp add: operation_of_def obj_get_def to_string_def)

subsection \<open>The profile of a new user is dropped\<close>

lemma obj_get_agree: "map_of ev k = map_of ev' k \<Longrightarrow> obj_get ev k = obj_get ev' k"
  by (simp add: obj_get_def)

lemma handleCreateUser_profile:
  assumes "\<forall>k. k \<noteq> ''profile'' \<longrightarrow> map_of ev k = map_of ev' k"
  shows "handleCreateUser R ev = handleCreateUser R ev'"
proof -
  have same: "obj_get ev ''username'' = obj_get ev' ''username''"
    "obj_get ev ''password'' = obj_get ev' ''password''"
    "obj_get ev ''email'' = obj_get ev' ''email''"
    by (rule obj_get_agree, rule assms [rule_format], simp)+
  show ?thesis
    unfolding handleCreateUser_def Let_def by (subst same)+ (rule refl)
qed

lemma handleResetPassword_profile:
  assumes "\<forall>k. k \<noteq> ''profile'' \<longrightarrow> map_of ev k = map_of ev' k"
  shows "handleResetPassword R ev = handleResetPassword R ev'"
proof -
  have same: "obj_get ev ''username'' = obj_get ev' ''username''"
    "obj_get ev ''newPassword'' = obj_get ev' ''newPassword''"
    by (rule obj_get_agree, rule assms [rule_format], simp)+
  show ?thesis
    unfolding handleResetPassword_def Let_def by (subst same)+ (rule refl)
qed

text \<open>
  Claim C9. The \<open>profile\<close> of the event has no effect: two events that agree on every
  property other than \<open>profile\<close> get the same response and leave the same world, from
  \<open>handleCreateUser\<close> and from the handler. Whenever \<open>createUser\<close> returns a user,
  that record has exactly the seven fields \<open>user_id\<close>, \<open>username\<close>,
  \<open>password_hash\<close>, \<open>email\<close>, \<open>email_verified\<close>, \<open>created_at\<close>,
  \<open>updated_at\<close>, and it is the record put into the users table.
\<close>

theorem profile_discarded:
  "((\<forall>k. k \<noteq> ''profile'' \<longrightarrow> map_of ev k = map_of ev' k)
      \<longrightarrow> handleCreateUser R ev = handleCreateUser R ev'
          \<and> management_user_handler R (JObj ev) = management_user_handler R (JObj ev'))
   \<and> (createUser R username password email w = (Inr user, w')
      \<longrightarrow> map fst user = [''user_id'', ''username'', ''password_hash'', ''email'',
                           ''email_verified'', ''created_at'', ''updated_at'']
          \<and> tables w' Users = put_rows Users user (tables w Users)
          \<and> db_log w' = db_log w @ [PutCommand Users user])"
proof (intro conjI impI)
  assume a: "\<forall>k. k \<noteq> ''profile'' \<longrightarrow> map_of ev k = map_of ev' k"
  show "handleCreateUser R ev = handleCreateUser R ev'"
    using a by (rule handleCreateUser_profile)
  have op: "obj_get ev ''operation'' = obj_get ev' ''operation''"
    by (rule obj_get_agree, rule a [rule_format], simp)
  show "management_user_handler R (JObj ev) = management_user_handler R (JObj ev')"
    unfolding management_user_handler_def destructure_def Let_def jv.case lift_Inr bind_ret
    by (subst op handleCreateUser_profile [OF a] handleResetPassword_profile [OF a])+ (rule refl)
next
  assume "createUser R username password email w = (Inr user, w')"
  from createUser_fields [OF this]
  show "map fst user = [''user_id'', ''username'', ''password_hash'', ''email'',
                           ''email_verified'', ''created_at'', ''updated_at'']"
    and "tables w' Users = put_rows Users user (tables w Users)"
    and "db_log w' = db_log w @ [PutCommand Users user]"
    by blast+
qed

theorem profile_discarded_witness:
  "management_user_handler R0
     (JObj [(''operation'', JStr ''createUser''), (''username'', JStr ''alice123''),
            (''password'', JStr ''Passw0rd!''), (''email'', JStr ''a@example.com''),
            (''profile'', JObj [(''name'', JStr ''Alice'')])])
   = management_user_handler R0
     (JObj [(''operation'', JStr ''createUser''), (''username'', JStr ''alice123''),
            (''password'', JStr ''Passw0rd!''), (''email'', JStr ''a@example.com'')])
   \<and> (\<exists>user w'. createUser R0 (JStr ''alice123'') (JStr ''Passw0rd!'') (JStr ''a@example.com'') w0
                   = (Inr user, w')
        \<and> map fst user = [''user_id'', ''username'', ''password_hash'', ''email'',
                           ''email_verified'', ''created_at'', ''updated_at'']
        \<and> db_log w' = [PutCommand Users user])"
proof -
  let ?ev = "[(''operation'', JStr ''createUser''), (''username'', JStr ''alice123''),
            (''password'', JStr ''Passw0rd!''), (''email'', JStr ''a@example.com''),
            (''profile'', JObj [(''name'', JStr ''Alice'')])]"
  let ?ev' = "[(''operation'', JStr ''createUser''), (''username'', JStr ''alice123''),
            (''password'', JStr ''Passw0rd!''), (''email'', JStr ''a@example.com'')]"
  have agree: "\<forall>k. k \<noteq> ''profile'' \<longrightarrow> map_of ?ev k = map_of ?ev' k"
    by (simp del: list.inject)
  obtain r w' where run:
    "createUser R0 (JStr ''alice123'') (JStr ''Passw0rd!'') (JStr ''a@example.com'') w0 = (r, w')"
    by (cases "createUser R0 (JStr ''alice123'') (JStr ''Passw0rd!'') (JStr ''a@example.com'') w0")
  then obtain user where r: "r = Inr user"
    by (auto simp: createUser_string Let_def)
  have log: "db_log w0 = []" by (simp add: w0_def)
  note T = profile_discarded [of ?ev ?ev' R0 "JStr ''alice123''" "JStr ''Passw0rd!''"
      "JStr ''a@example.com''" w0 user w']
  have 1: "management_user_handler R0 (JObj ?ev) = management_user_handler R0 (JObj ?ev')"
    using T agree by blast
  have 2: "map fst user = [''user_id'', ''username'', ''password_hash'', ''email'',
                           ''email_verified'', ''created_at'', ''updated_at'']
          \<and> db_log w' = db_log w0 @ [PutCommand Users user]"
    using T run r by blast
  from 1 2 run r log show ?thesis
    by (intro conjI exI [of _ user] exI [of _ w']) simp_all
qed

subsection \<open>The client id of a stored client never changes\<close>

lemma ids_kept_refl: "ids_kept w w"
  by (simp add: ids_kept_def)

lemma ids_kept_trans:
  assumes ab: "ids_kept a b" and bc: "ids_kept b c"
  shows "ids_kept a c"
proof -
  have le: "length (client_ids a) \<le> length (client_ids b)"
    using arg_cong [OF ab [unfolded ids_kept_def], of length] by simp
  have "take (length (client_ids a)) (client_ids c)
        = take (length (client_ids a)) (take (length (client_ids b)) (client_ids c))"
    using le by (simp add: min_def)
  also have "\<dots> = take (length (client_ids a)) (client_ids b)"
    using bc by (simp only: ids_kept_def)
  also have "\<dots> = client_ids a"
    using ab by (simp only: ids_kept_def)
  finally show ?thesis
    by (simp only: ids_kept_def)
qed

lemma ids_kept_same: "tables w' Clients = tables w Clients \<Longrightarrow> ids_kept w w'"
  by (simp add: ids_kept_def client_ids_def)

lemma ids_ret: "keeps_client_ids (ret x)"
  by (simp add: keeps_client_ids_def ret_def ids_kept_refl)

lemma ids_throw: "keeps_client_ids (throw e)"
  by (simp add: keeps_client_ids_def throw_def ids_kept_refl)

lemma ids_lift: "keeps_client_ids (lift r)"
  by (cases r) (simp_all add: lift_def ids_ret ids_throw)

lemma ids_bind:
  assumes m: "keeps_client_ids m" and f: "\<And>x. keeps_client_ids (f x)"
  shows "keeps_client_ids (bind m f)"
proof -
  have "ids_kept w (snd (bind m f w))" for w
  proof (cases "m w")
    case (Pair r w1)
    have 1: "ids_kept w w1" using m Pair by (metis keeps_client_ids_def snd_conv)
    show ?thesis
    proof (cases r)
      case (Inl e)
      then show ?thesis using 1 Pair by (simp add: bind_def)
    next
      case (Inr x)
      have "ids_kept w1 (snd (f x w1))" using f by (simp add: keeps_client_ids_def)
      with 1 have "ids_kept w (snd (f x w1))" by (rule ids_kept_trans)
      then show ?thesis using Pair Inr by (simp add: bind_def)
    qed
  qed
  then show ?thesis by (simp add: keeps_client_ids_def)
qed

lemma ids_if:
  "(c \<Longrightarrow> keeps_client_ids a) \<Longrightarrow> (\<not> c \<Longrightarrow> keeps_client_ids b)
   \<Longrightarrow> keeps_client_ids (if c then a else b)"
  by simp

lemma ids_option:
  "(x = None \<Longrightarrow> keeps_client_ids a) \<Longrightarrow> (\<And>y. x = Some y \<Longrightarrow> keeps_client_ids (b y))
   \<Longrightarrow> keeps_client_ids (case x of None \<Rightarrow> a | Some y \<Rightarrow> b y)"
  by (cases x) simp_all

lemma ids_catch_all: "keeps_client_ids m \<Longrightarrow> ids_kept w (snd (catch_all R m w))"
  by (cases "m w") (auto simp: keeps_client_ids_def catch_all_def split: sum.splits dest: spec [of _ w])

lemma ids_getItem: "keeps_client_ids (getItem t k)"
  by (simp add: keeps_client_ids_def getItem_def ids_kept_same)

lemma ids_queryItems: "keeps_client_ids (queryItems t i a v)"
  by (simp add: keeps_client_ids_def queryItems_def ids_kept_same)

lemma ids_date_now: "keeps_client_ids (date_now R)"
  by (simp add: keeps_client_ids_def date_now_def ids_kept_same)

lemma ids_new_date_iso: "keeps_client_ids (new_date_iso R)"
  unfolding new_date_iso_def by (intro ids_bind ids_date_now ids_ret)

lemma ids_uuidv4: "keeps_client_ids (uuidv4 R)"
  by (simp add: keeps_client_ids_def uuidv4_def ids_kept_same)

lemma ids_bcrypt_hash: "keeps_client_ids (bcrypt_hash_eff R d n)"
  by (cases d) (simp_all add: bcrypt_hash_eff_def ids_throw, simp add: keeps_client_ids_def ids_kept_same)

lemma ids_putItem_other: "t \<noteq> Clients \<Longrightarrow> keeps_client_ids (putItem t item)"
  by (simp add: keeps_client_ids_def putItem_def ids_kept_same)

lemma put_rows_client_ids:
  assumes "map_of item ''client_id'' = Some v"
  shows "take (length rows) (map (\<lambda>row. map_of row ''client_id'') (put_rows Clients item rows))
         = map (\<lambda>row. map_of row ''client_id'') rows"
proof -
  have k: "key_of Clients item = [(''client_id'', v)]"
    using assms by (simp add: key_of_def obj_get_def)
  show ?thesis
    using assms by (auto simp: put_rows_def k matches_key_def)
qed

lemma ids_putItem_client:
  "map_of item ''client_id'' = Some v \<Longrightarrow> keeps_client_ids (putItem Clients item)"
  by (simp add: keeps_client_ids_def putItem_def ids_kept_def client_ids_def put_rows_client_ids)

lemma ids_createClient: "keeps_client_ids (createClient R a b c d e)"
  unfolding createClient_def Let_def
  by (intro ids_bind ids_new_date_iso ids_ret ids_putItem_client) simp

lemma ids_updateClient: "keeps_client_ids (updateClient R clientId updates)"
  unfolding updateClient_def Let_def getClientById_def
  by (intro ids_bind ids_getItem ids_option ids_throw ids_new_date_iso ids_ret
      ids_putItem_client [where v = clientId]) (simp add: map_of_obj_set)

lemma ids_getUserByUsername: "keeps_client_ids (getUserByUsername u)"
  unfolding getUserByUsername_def by (intro ids_bind ids_queryItems ids_ret)

lemma ids_createUser: "keeps_client_ids (createUser R a b c)"
  unfolding createUser_def Let_def
  by (intro ids_bind ids_uuidv4 ids_bcrypt_hash ids_new_date_iso ids_ret ids_putItem_other) simp

lemma ids_updateUserPassword: "keeps_client_ids (updateUserPassword R a b)"
  unfolding updateUserPassword_def Let_def getUserById_def
  by (intro ids_bind ids_getItem ids_option ids_bcrypt_hash ids_new_date_iso ids_ret
      ids_putItem_other) simp

lemma ids_createApplication: "keeps_client_ids (createApplication R a b c d e)"
  unfolding createApplication_def Let_def
  by (intro ids_bind ids_if ids_uuidv4 ids_new_date_iso ids_ret ids_putItem_other) simp

lemma ids_updateApplication: "keeps_client_ids (updateApplication R a b)"
  unfolding updateApplication_def Let_def getApplicationById_def
  by (intro ids_bind ids_getItem ids_option ids_throw ids_new_date_iso ids_ret
      ids_putItem_other) simp

lemma ids_createUserApplication: "keeps_client_ids (createUserApplication R a b c)"
  unfolding createUserApplication_def Let_def
  by (intro ids_bind ids_new_date_iso ids_ret ids_putItem_other) simp

lemma ids_updateUserApplication: "keeps_client_ids (updateUserApplication R a b c)"
  unfolding updateUserApplication_def Let_def getUserApplication_def
  by (intro ids_bind ids_getItem ids_option ids_throw ids_new_date_iso ids_ret
      ids_putItem_other) simp

lemmas ids_rules = ids_bind ids_if ids_option ids_ret ids_throw ids_lift ids_getItem
  ids_getUserByUsername ids_createUser ids_updateUserPassword ids_createClient ids_updateClient
  ids_createApplication ids_updateApplication ids_createUserApplication
  ids_updateUserApplication

lemma ids_handleCreateUser: "keeps_client_ids (handleCreateUser R ev)"
  unfolding handleCreateUser_def Let_def by (intro ids_rules)

lemma ids_handleResetPassword: "keeps_client_ids (handleResetPassword R ev)"
  unfolding handleResetPassword_def Let_def by (intro ids_rules)

lemma ids_handleCreateClient: "keeps_client_ids (handleCreateClient R ev)"
  unfolding handleCreateClient_def Let_def getClientById_def by (intro ids_rules)

lemma ids_handleUpdateClient: "keeps_client_ids (handleUpdateClient R ev)"
  unfolding handleUpdateClient_def Let_def getClientById_def by (intro ids_rules)

lemma ids_handleCreateApplication: "keeps_client_ids (handleCreateApplication R ev)"
  unfolding handleCreateApplication_def Let_def getClientById_def getApplicationById_def
  by (intro ids_rules)

lemma ids_handleUpdateApplication: "keeps_client_ids (handleUpdateApplication R ev)"
  unfolding handleUpdateApplication_def Let_def getClientById_def getApplicationById_def
  by (intro ids_rules)

lemma ids_handleCreateUserApplication: "keeps_client_ids (handleCreateUserApplication R ev)"
  unfolding handleCreateUserApplication_def Let_def getUserById_def getApplicationById_def
    getUserApplication_def
  by (intro ids_rules)

lemma ids_handleUpdateUserApplication: "keeps_client_ids (handleUpdateUserApplication R ev)"
  unfolding handleUpdateUserApplication_def Let_def getUserApplication_def
  by (intro ids_rules)

lemma ids_user_frame:
  "keeps_client_ids (bind (lift (destructure event)) (\<lambda>ev.
          let operation = obj_get ev ''operation''
          in if \<not> truthy operation
             then ret (invalid_request R d1)
             else if operation = JStr o1 then h1 ev
             else if operation = JStr o2 then h2 ev
             else bind (lift (to_string R operation)) (\<lambda>s. ret (invalid_request R (d2 s)))))"
  if "\<And>ev. keeps_client_ids (h1 ev)" and "\<And>ev. keeps_client_ids (h2 ev)"
  unfolding Let_def by (intro ids_rules that)

lemma put_rows_same_ids:
  assumes "find (matches_key [(''client_id'', v)]) rows = Some c"
    and "map_of item ''client_id'' = Some v"
  shows "map (\<lambda>row. map_of row ''client_id'') (put_rows Clients item rows)
         = map (\<lambda>row. map_of row ''client_id'') rows"
proof -
  have k: "key_of Clients item = [(''client_id'', v)]"
    using assms(2) by (simp add: key_of_def obj_get_def)
  have "list_ex (matches_key [(''client_id'', v)]) rows"
    using assms(1) by (induction rows) (auto split: if_splits)
  then show ?thesis
    using assms(2) by (auto simp: put_rows_def k matches_key_def)
qed

text \<open>
  Claim C7. Whatever the updates hold, \<open>updateClient\<close> leaves the \<open>client_id\<close> of
  every stored client as it was: the record it stores under the key carries the id it was
  looked up by, also when the updates name another \<open>client_id\<close>. The same holds for
  \<open>createClient\<close> and for every invocation of each of the four handlers, with any
  event: these are all the operations that write to a table.
\<close>

theorem client_id_immutable:
  "ids_kept w (snd (updateClient R clientId updates w))
   \<and> ids_kept w (snd (createClient R clientId clientSecret redirectUris name description w))
   \<and> (find (matches_key [(''client_id'', clientId)]) (tables w Clients) = Some client
      \<longrightarrow> (\<exists>updated w'. updateClient R clientId updates w = (Inr updated, w')
            \<and> map_of updated ''client_id'' = Some clientId
            \<and> find (matches_key [(''client_id'', clientId)]) (tables w' Clients) = Some updated
            \<and> client_ids w' = client_ids w))
   \<and> ids_kept w (snd (management_client_handler R event w))
   \<and> ids_kept w (snd (management_user_handler R event w))
   \<and> ids_kept w (snd (management_application_handler R event w))
   \<and> ids_kept w (snd (management_user_application_handler R event w))"
proof (intro conjI impI)
  show "ids_kept w (snd (updateClient R clientId updates w))"
    using ids_updateClient by (simp add: keeps_client_ids_def)
  show "ids_kept w (snd (createClient R clientId clientSecret redirectUris name description w))"
    using ids_createClient by (simp add: keeps_client_ids_def)
  show "ids_kept w (snd (management_client_handler R event w))"
    unfolding management_client_handler_def
    by (intro ids_catch_all ids_user_frame ids_handleCreateClient ids_handleUpdateClient)
  show "ids_kept w (snd (management_user_handler R event w))"
    unfolding management_user_handler_def
    by (intro ids_catch_all ids_user_frame ids_handleCreateUser ids_handleResetPassword)
  show "ids_kept w (snd (management_application_handler R event w))"
    unfolding management_application_handler_def
    by (intro ids_catch_all ids_user_frame ids_handleCreateApplication
        ids_handleUpdateApplication)
  show "ids_kept w (snd (management_user_application_handler R event w))"
    unfolding management_user_application_handler_def
    by (intro ids_catch_all ids_user_frame ids_handleCreateUserApplication
        ids_handleUpdateUserApplication)
next
  assume found: "find (matches_key [(''client_id'', clientId)]) (tables w Clients) = Some client"
  define updated where "updated =
    obj_set (obj_set (obj_spread client updates) ''client_id'' clientId)
      ''updated_at'' (JStr (toISOString R (clock R (clock_reads w))))"
  define w' where "w' = w\<lparr>tables := (tables w)(Clients := put_rows Clients updated (tables w Clients)),
           db_log := db_log w @ [GetCommand Clients [(''client_id'', clientId)],
                                 PutCommand Clients updated],
           clock_reads := Suc (clock_reads w)\<rparr>"
  have run: "updateClient R clientId updates w = (Inr updated, w')"
    by (simp add: updateClient_found [OF found] Let_def updated_def w'_def)
  have own: "map_of updated ''client_id'' = Some clientId"
    by (simp add: updated_def map_of_obj_set)
  have key: "key_of Clients updated = [(''client_id'', clientId)]"
    using own by (simp add: key_of_def obj_get_def)
  have stored: "find (matches_key [(''client_id'', clientId)]) (tables w' Clients) = Some updated"
    using find_put_rows [of Clients updated] own by (simp add: key w'_def matches_key_def)
  have same: "client_ids w' = client_ids w"
    using put_rows_same_ids [OF found own] by (simp add: client_ids_def w'_def)
  from run own stored same
  show "\<exists>updated w'. updateClient R clientId updates w = (Inr updated, w')
            \<and> map_of updated ''client_id'' = Some clientId
            \<and> find (matches_key [(''client_id'', clientId)]) (tables w' Clients) = Some updated
            \<and> client_ids w' = client_ids w"
    by blast
qed

theorem client_id_immutable_witness:
  "find (matches_key [(''client_id'', JStr ''web'')]) (tables w1 Clients) = Some sample_client
   \<and> (\<exists>updated w'.
        updateClient R0 (JStr ''web'') [(''client_id'', JStr ''other''), (''name'', JStr ''X'')] w1
          = (Inr updated, w')
        \<and> map_of updated ''client_id'' = Some (JStr ''web'')
        \<and> find (matches_key [(''client_id'', JStr ''web'')]) (tables w' Clients) = Some updated
        \<and> client_ids w' = [Some (JStr ''web'')])
   \<and> ids_kept w1 (snd (management_client_handler R0
         (JObj [(''operation'', JStr ''updateClient''), (''client_id'', JStr ''web''),
                (''name'', JStr ''X'')]) w1))"
proof -
  note T = client_id_immutable [where R = R0 and w = w1 and clientId = "JStr ''web''"
      and client = sample_client]
  have c: "find (matches_key [(''client_id'', JStr ''web'')]) (tables w1 Clients) = Some sample_client"
    by (simp add: w1_def w0_def sample_client_def matches_key_def)
  have ids: "client_ids w1 = [Some (JStr ''web'')]"
    by (simp add: client_ids_def w1_def w0_def sample_client_def)
  from T [where updates = "[(''client_id'', JStr ''other''), (''name'', JStr ''X'')]"] c ids
  have "\<exists>updated w'.
        updateClient R0 (JStr ''web'') [(''client_id'', JStr ''other''), (''name'', JStr ''X'')] w1
          = (Inr updated, w')
        \<and> map_of updated ''client_id'' = Some (JStr ''web'')
        \<and> find (matches_key [(''client_id'', JStr ''web'')]) (tables w' Clients) = Some updated
        \<and> client_ids w' = [Some (JStr ''web'')]"
    by simp
  moreover from T have "ids_kept w1 (snd (management_client_handler R0
         (JObj [(''operation'', JStr ''updateClient''), (''client_id'', JStr ''web''),
                (''name'', JStr ''X'')]) w1))"
    by blast
  ultimately show ?thesis using c by blast
qed

subsection \<open>Updates merge the caller's fields\<close>

lemma spread_lookup:
  "distinct (map fst updates) \<Longrightarrow>
   map_of (obj_spread old updates) k =
     (case map_of updates k of Some v \<Rightarrow> Some v | None \<Rightarrow> map_of old k)"
  by (simp add: map_of_obj_spread map_of_rev_distinct map_add_def)

lemma merged_named:
  assumes "distinct (map fst updates)" and "map_of updates k = Some v" and "k \<noteq> k1" and "k \<noteq> k2"
  shows "map_of (obj_set (obj_set (obj_spread old updates) k1 v1) k2 v2) k = Some v"
  using assms by (simp add: map_of_obj_set spread_lookup)

lemma merged_kept:
  assumes "distinct (map fst updates)" and "map_of updates k = None" and "k \<noteq> k2"
    and "map_of old k1 = Some v1"
  shows "map_of (obj_set (obj_set (obj_spread old updates) k1 v1) k2 v2) k = map_of old k"
  using assms by (simp add: map_of_obj_set spread_lookup)

lemma update_client_merges:
  assumes found: "find (matches_key [(''client_id'', clientId)]) (tables w Clients) = Some client"
    and d: "distinct (map fst updates)"
  shows "\<exists>updated w'. updateClient R clientId updates w = (Inr updated, w')
          \<and> find (matches_key [(''client_id'', clientId)]) (tables w' Clients) = Some updated
          \<and> map_of updated ''updated_at'' = Some (JStr (toISOString R (clock R (clock_reads w))))
          \<and> clock_reads w' = Suc (clock_reads w)
          \<and> (\<forall>k v. map_of updates k = Some v \<longrightarrow> k \<notin> {''client_id'', ''updated_at''}
                \<longrightarrow> map_of updated k = Some v)
          \<and> (\<forall>k. map_of updates k = None \<longrightarrow> k \<noteq> ''updated_at''
                \<longrightarrow> map_of updated k = map_of client k)"
proof -
  define updated where "updated =
    obj_set (obj_set (obj_spread client updates) ''client_id'' clientId)
      ''updated_at'' (JStr (toISOString R (clock R (clock_reads w))))"
  define w' where "w' = w\<lparr>tables := (tables w)(Clients := put_rows Clients updated (tables w Clients)),
           db_log := db_log w @ [GetCommand Clients [(''client_id'', clientId)],
                                 PutCommand Clients updated],
           clock_reads := Suc (clock_reads w)\<rparr>"
  have run: "updateClient R clientId updates w = (Inr updated, w')"
    by (simp add: updateClient_found [OF found] Let_def updated_def w'_def)
  have key: "key_of Clients updated = [(''client_id'', clientId)]"
    by (simp add: key_of_def updated_def obj_get_def map_of_obj_set)
  have own: "matches_key [(''client_id'', clientId)] updated"
    by (simp add: matches_key_def updated_def map_of_obj_set)
  have old: "map_of client ''client_id'' = Some clientId"
    using found by (auto simp: find_Some_iff matches_key_def)
  have stored: "find (matches_key [(''client_id'', clientId)]) (tables w' Clients) = Some updated"
    using find_put_rows [of Clients updated] own by (simp add: key w'_def)
  have stamp: "map_of updated ''updated_at'' = Some (JStr (toISOString R (clock R (clock_reads w))))"
    by (simp add: updated_def map_of_obj_set)
  have named: "\<forall>k v. map_of updates k = Some v \<longrightarrow> k \<notin> {''client_id'', ''updated_at''}
                \<longrightarrow> map_of updated k = Some v"
    using merged_named [OF d] by (simp add: updated_def)
  have kept: "\<forall>k. map_of updates k = None \<longrightarrow> k \<noteq> ''updated_at''
                \<longrightarrow> map_of updated k = map_of client k"
    using merged_kept [OF d _ _ old] by (simp add: updated_def)
  have "clock_reads w' = Suc (clock_reads w)" by (simp add: w'_def)
  with run stored stamp named kept show ?thesis by blast
qed

lemma update_application_merges:
  assumes found: "find (matches_key [(''application_id'', applicationId)]) (tables w Applications)
        = Some application"
    and d: "distinct (map fst updates)"
  shows "\<exists>updated w'. updateApplication R applicationId updates w = (Inr updated, w')
          \<and> find (matches_key [(''application_id'', applicationId)]) (tables w' Applications)
              = Some updated
          \<and> map_of updated ''updated_at'' = Some (JStr (toISOString R (clock R (clock_reads w))))
          \<and> clock_reads w' = Suc (clock_reads w)
          \<and> (\<forall>k v. map_of updates k = Some v \<longrightarrow> k \<notin> {''application_id'', ''updated_at''}
                \<longrightarrow> map_of updated k = Some v)
          \<and> (\<forall>k. map_of updates k = None \<longrightarrow> k \<noteq> ''updated_at''
                \<longrightarrow> map_of updated k = map_of application k)"
proof -
  define updated where "updated =
    obj_set (obj_set (obj_spread application updates) ''application_id'' applicationId)
      ''updated_at'' (JStr (toISOString R (clock R (clock_reads w))))"
  define w' where "w' = w\<lparr>tables := (tables w)(Applications :=
              put_rows Applications updated (tables w Applications)),
           db_log := db_log w @ [GetCommand Applications [(''application_id'', applicationId)],
                                 PutCommand Applications updated],
           clock_reads := Suc (clock_reads w)\<rparr>"
  have run: "updateApplication R applicationId updates w = (Inr updated, w')"
    by (simp add: updateApplication_found [OF found] Let_def updated_def w'_def)
  have key: "key_of Applications updated = [(''application_id'', applicationId)]"
    by (simp add: key_of_def updated_def obj_get_def map_of_obj_set)
  have own: "matches_key [(''application_id'', applicationId)] updated"
    by (simp add: matches_key_def updated_def map_of_obj_set)
  have old: "map_of application ''application_id'' = Some applicationId"
    using found by (auto simp: find_Some_iff matches_key_def)
  have stored: "find (matches_key [(''application_id'', applicationId)]) (tables w' Applications)
      = Some updated"
    using find_put_rows [of Applications updated] own by (simp add: key w'_def)
  have stamp: "map_of updated ''updated_at'' = Some (JStr (toISOString R (clock R (clock_reads w))))"
    by (simp add: updated_def map_of_obj_set)
  have named: "\<forall>k v. map_of updates k = Some v \<longrightarrow> k \<notin> {''application_id'', ''updated_at''}
                \<longrightarrow> map_of updated k = Some v"
    using merged_named [OF d] by (simp add: updated_def)
  have kept: "\<forall>k. map_of updates k = None \<longrightarrow> k \<noteq> ''updated_at''
                \<longrightarrow> map_of updated k = map_of application k"
    using merged_kept [OF d _ _ old] by (simp add: updated_def)
  have "clock_reads w' = Suc (clock_reads w)" by (simp add: w'_def)
  with run stored stamp named kept show ?thesis by blast
qed

lemma merged_named3:
  assumes "distinct (map fst updates)" and "map_of updates k = Some v"
    and "k \<noteq> k1" and "k \<noteq> k2" and "k \<noteq> k3"
  shows "map_of (obj_set (obj_set (obj_set (obj_spread old updates) k1 v1) k2 v2) k3 v3) k = Some v"
  using assms by (simp add: map_of_obj_set spread_lookup)

lemma merged_kept3:
  assumes "distinct (map fst updates)" and "map_of updates k = None" and "k \<noteq> k3"
    and "map_of old k1 = Some v1" and "map_of old k2 = Some v2"
  shows "map_of (obj_set (obj_set (obj_set (obj_spread old updates) k1 v1) k2 v2) k3 v3) k
         = map_of old k"
  using assms by (simp add: map_of_obj_set spread_lookup)

lemma update_user_application_merges:
  assumes found: "find (matches_key [(''user_id'', userId), (''application_id'', mappedId)])
          (tables w UserApplications) = Some userApplication"
    and d: "distinct (map fst updates)"
  shows "\<exists>updated w'. updateUserApplication R userId mappedId updates w = (Inr updated, w')
          \<and> find (matches_key [(''user_id'', userId), (''application_id'', mappedId)])
                (tables w' UserApplications) = Some updated
          \<and> map_of updated ''updated_at'' = Some (JStr (toISOString R (clock R (clock_reads w))))
          \<and> clock_reads w' = Suc (clock_reads w)
          \<and> (\<forall>k v. map_of updates k = Some v
                \<longrightarrow> k \<notin> {''user_id'', ''application_id'', ''updated_at''}
                \<longrightarrow> map_of updated k = Some v)
          \<and> (\<forall>k. map_of updates k = None \<longrightarrow> k \<noteq> ''updated_at''
                \<longrightarrow> map_of updated k = map_of userApplication k)"
proof -
  define updated where "updated =
    obj_set (obj_set (obj_set (obj_spread userApplication updates) ''user_id'' userId)
      ''application_id'' mappedId)
      ''updated_at'' (JStr (toISOString R (clock R (clock_reads w))))"
  define w' where "w' = w\<lparr>tables := (tables w)(UserApplications :=
              put_rows UserApplications updated (tables w UserApplications)),
           db_log := db_log w @
             [GetCommand UserApplications [(''user_id'', userId), (''application_id'', mappedId)],
              PutCommand UserApplications updated],
           clock_reads := Suc (clock_reads w)\<rparr>"
  have run: "updateUserApplication R userId mappedId updates w = (Inr updated, w')"
    by (simp add: updateUserApplication_found [OF found] Let_def updated_def w'_def)
  have key: "key_of UserApplications updated
             = [(''user_id'', userId), (''application_id'', mappedId)]"
    by (simp add: key_of_def updated_def obj_get_def map_of_obj_set)
  have own: "matches_key [(''user_id'', userId), (''application_id'', mappedId)] updated"
    by (simp add: matches_key_def updated_def map_of_obj_set)
  have old: "map_of userApplication ''user_id'' = Some userId"
    "map_of userApplication ''application_id'' = Some mappedId"
    using found by (auto simp: find_Some_iff matches_key_def)
  have stored: "find (matches_key [(''user_id'', userId), (''application_id'', mappedId)])
      (tables w' UserApplications) = Some updated"
    using find_put_rows [of UserApplications updated] own by (simp add: key w'_def)
  have stamp: "map_of updated ''updated_at'' = Some (JStr (toISOString R (clock R (clock_reads w))))"
    by (simp add: updated_def map_of_obj_set)
  have named: "\<forall>k v. map_of updates k = Some v
                \<longrightarrow> k \<notin> {''user_id'', ''application_id'', ''updated_at''}
                \<longrightarrow> map_of updated k = Some v"
    using merged_named3 [OF d] by (simp add: updated_def)
  have kept: "\<forall>k. map_of updates k = None \<longrightarrow> k \<noteq> ''updated_at''
                \<longrightarrow> map_of updated k = map_of userApplication k"
    using merged_kept3 [OF d _ _ old] by (simp add: updated_def)
  have "clock_reads w' = Suc (clock_reads w)" by (simp add: w'_def)
  with run stored stamp named kept show ?thesis by blast
qed

text \<open>
  Claim C10. An update of an existing client, application or mapping returns and stores
  a record in which every field named in the updates, other than the pinned key fields of
  that operation and \<open>updated_at\<close>, has the value the caller gave (whatever the field:
  \<open>created_at\<close>, \<open>client_secret\<close>), \<open>updated_at\<close> is the time of a new reading of
  the clock, and every field the updates do not name, other than \<open>updated_at\<close>, has
  the value it had. The updates are an object: no key twice.
\<close>

theorem update_merges_fields:
  "(find (matches_key [(''client_id'', clientId)]) (tables w Clients) = Some client
      \<and> distinct (map fst updates)
    \<longrightarrow> (\<exists>updated w'. updateClient R clientId updates w = (Inr updated, w')
          \<and> find (matches_key [(''client_id'', clientId)]) (tables w' Clients) = Some updated
          \<and> map_of updated ''updated_at'' = Some (JStr (toISOString R (clock R (clock_reads w))))
          \<and> clock_reads w' = Suc (clock_reads w)
          \<and> (\<forall>k v. map_of updates k = Some v \<longrightarrow> k \<notin> {''client_id'', ''updated_at''}
                \<longrightarrow> map_of updated k = Some v)
          \<and> (\<forall>k. map_of updates k = None \<longrightarrow> k \<noteq> ''updated_at''
                \<longrightarrow> map_of updated k = map_of client k)))
   \<and> (find (matches_key [(''application_id'', applicationId)]) (tables w Applications)
        = Some application \<and> distinct (map fst updates)
    \<longrightarrow> (\<exists>updated w'. updateApplication R applicationId updates w = (Inr updated, w')
          \<and> find (matches_key [(''application_id'', applicationId)]) (tables w' Applications)
              = Some updated
          \<and> map_of updated ''updated_at'' = Some (JStr (toISOString R (clock R (clock_reads w))))
          \<and> clock_reads w' = Suc (clock_reads w)
          \<and> (\<forall>k v. map_of updates k = Some v \<longrightarrow> k \<notin> {''application_id'', ''updated_at''}
                \<longrightarrow> map_of updated k = Some v)
          \<and> (\<forall>k. map_of updates k = None \<longrightarrow> k \<noteq> ''updated_at''
                \<longrightarrow> map_of updated k = map_of application k)))
   \<and> (find (matches_key [(''user_id'', userId), (''application_id'', mappedId)])
          (tables w UserApplications) = Some userApplication \<and> distinct (map fst updates)
    \<longrightarrow> (\<exists>updated w'. updateUserApplication R userId mappedId updates w = (Inr updated, w')
          \<and> find (matches_key [(''user_id'', userId), (''application_id'', mappedId)])
                (tables w' UserApplications) = Some updated
          \<and> map_of updated ''updated_at'' = Some (JStr (toISOString R (clock R (clock_reads w))))
          \<and> clock_reads w' = Suc (clock_reads w)
          \<and> (\<forall>k v. map_of updates k = Some v
                \<longrightarrow> k \<notin> {''user_id'', ''application_id'', ''updated_at''}
                \<longrightarrow> map_of updated k = Some v)
          \<and> (\<forall>k. map_of updates k = None \<longrightarrow> k \<noteq> ''updated_at''
                \<longrightarrow> map_of updated k = map_of userApplication k)))"
  by (intro conjI impI; elim conjE;
      (rule update_client_merges | rule update_application_merges
        | rule update_user_application_merges); assumption)

theorem update_merges_fields_witness:
  "(\<exists>updated w'.
      updateClient R0 (JStr ''web'')
        [(''client_secret'', JStr ''rotated''), (''created_at'', JStr ''T0'')] w1 = (Inr updated, w')
      \<and> find (matches_key [(''client_id'', JStr ''web'')]) (tables w' Clients) = Some updated
      \<and> map_of updated ''client_secret'' = Some (JStr ''rotated'')
      \<and> map_of updated ''created_at'' = Some (JStr ''T0'')
      \<and> map_of updated ''name'' = Some (JStr ''Web'')
      \<and> map_of updated ''updated_at'' = Some (JStr ''T1000''))
   \<and> (\<exists>updated w'.
      updateApplication R0 (JStr ''app-prod'')
        [(''client_id'', JStr ''other''), (''created_at'', JStr ''T0'')] w1 = (Inr updated, w')
      \<and> map_of updated ''client_id'' = Some (JStr ''other'')
      \<and> map_of updated ''created_at'' = Some (JStr ''T0'')
      \<and> map_of updated ''name'' = Some (JStr ''Production'')
      \<and> map_of updated ''updated_at'' = Some (JStr ''T1000''))
   \<and> (\<exists>updated w'.
      updateUserApplication R0 (JStr ''u-1'') (JStr ''app-prod'')
        [(''account'', JStr ''acct-2'')] w1 = (Inr updated, w')
      \<and> map_of updated ''account'' = Some (JStr ''acct-2'')
      \<and> map_of updated ''created_at'' = Some (JStr ''T4'')
      \<and> map_of updated ''updated_at'' = Some (JStr ''T1000''))"
proof -
  let ?uc = "[(''client_secret'', JStr ''rotated''), (''created_at'', JStr ''T0'')]"
  let ?ua = "[(''client_id'', JStr ''other''), (''created_at'', JStr ''T0'')]"
  let ?um = "[(''account'', JStr ''acct-2'')]"
  note T = update_merges_fields [where R = R0 and w = w1]
  have stamp: "toISOString R0 (clock R0 (clock_reads w1)) = ''T1000''"
    by code_simp
  have c: "find (matches_key [(''client_id'', JStr ''web'')]) (tables w1 Clients) = Some sample_client"
    by (simp add: w1_def w0_def sample_client_def matches_key_def)
  have a: "find (matches_key [(''application_id'', JStr ''app-prod'')]) (tables w1 Applications)
           = Some sample_application"
    by (simp add: w1_def w0_def sample_application_def matches_key_def)
  have m: "find (matches_key [(''user_id'', JStr ''u-1''), (''application_id'', JStr ''app-prod'')])
             (tables w1 UserApplications) = Some sample_mapping"
    by (simp add: w1_def w0_def sample_mapping_def matches_key_def)
  have 1: "\<exists>updated w'.
      updateClient R0 (JStr ''web'') ?uc w1 = (Inr updated, w')
      \<and> find (matches_key [(''client_id'', JStr ''web'')]) (tables w' Clients) = Some updated
      \<and> map_of updated ''client_secret'' = Some (JStr ''rotated'')
      \<and> map_of updated ''created_at'' = Some (JStr ''T0'')
      \<and> map_of updated ''name'' = Some (JStr ''Web'')
      \<and> map_of updated ''updated_at'' = Some (JStr ''T1000'')"
  proof -
    have "distinct (map fst ?uc)" by simp
    with c T [where updates = ?uc and clientId = "JStr ''web''" and client = sample_client,
        THEN conjunct1]
    obtain updated w' where run: "updateClient R0 (JStr ''web'') ?uc w1 = (Inr updated, w')"
      and stored: "find (matches_key [(''client_id'', JStr ''web'')]) (tables w' Clients) = Some updated"
      and st: "map_of updated ''updated_at'' = Some (JStr (toISOString R0 (clock R0 (clock_reads w1))))"
      and named: "\<And>k v. map_of ?uc k = Some v \<Longrightarrow> k \<notin> {''client_id'', ''updated_at''}
                \<Longrightarrow> map_of updated k = Some v"
      and kept: "\<And>k. map_of ?uc k = None \<Longrightarrow> k \<noteq> ''updated_at''
                \<Longrightarrow> map_of updated k = map_of sample_client k"
      by auto
    have "map_of updated ''client_secret'' = Some (JStr ''rotated'')"
      by (rule named) simp_all
    moreover have "map_of updated ''created_at'' = Some (JStr ''T0'')"
      by (rule named) simp_all
    moreover have "map_of updated ''name'' = Some (JStr ''Web'')"
      using kept [of "''name''"] by (simp add: sample_client_def)
    ultimately show ?thesis using run stored st stamp by auto
  qed
  have 2: "\<exists>updated w'.
      updateApplication R0 (JStr ''app-prod'') ?ua w1 = (Inr updated, w')
      \<and> map_of updated ''client_id'' = Some (JStr ''other'')
      \<and> map_of updated ''created_at'' = Some (JStr ''T0'')
      \<and> map_of updated ''name'' = Some (JStr ''Production'')
      \<and> map_of updated ''updated_at'' = Some (JStr ''T1000'')"
  proof -
    have "distinct (map fst ?ua)" by simp
    with a T [where updates = ?ua and applicationId = "JStr ''app-prod''"
        and application = sample_application, THEN conjunct2, THEN conjunct1]
    obtain updated w' where run: "updateApplication R0 (JStr ''app-prod'') ?ua w1 = (Inr updated, w')"
      and st: "map_of updated ''updated_at'' = Some (JStr (toISOString R0 (clock R0 (clock_reads w1))))"
      and named: "\<And>k v. map_of ?ua k = Some v \<Longrightarrow> k \<notin> {''application_id'', ''updated_at''}
                \<Longrightarrow> map_of updated k = Some v"
      and kept: "\<And>k. map_of ?ua k = None \<Longrightarrow> k \<noteq> ''updated_at''
                \<Longrightarrow> map_of updated k = map_of sample_application k"
      by auto
    have "map_of updated ''client_id'' = Some (JStr ''other'')"
      by (rule named) simp_all
    moreover have "map_of updated ''created_at'' = Some (JStr ''T0'')"
      by (rule named) simp_all
    moreover have "map_of updated ''name'' = Some (JStr ''Production'')"
      using kept [of "''name''"] by (simp add: sample_application_def)
    ultimately show ?thesis using run st stamp by auto
  qed
  have 3: "\<exists>updated w'.
      updateUserApplication R0 (JStr ''u-1'') (JStr ''app-prod'') ?um w1 = (Inr updated, w')
      \<and> map_of updated ''account'' = Some (JStr ''acct-2'')
      \<and> map_of updated ''created_at'' = Some (JStr ''T4'')
      \<and> map_of updated ''updated_at'' = Some (JStr ''T1000'')"
  proof -
    have "distinct (map fst ?um)" by simp
    with m T [where updates = ?um and userId = "JStr ''u-1''" and mappedId = "JStr ''app-prod''"
        and userApplication = sample_mapping, THEN conjunct2, THEN conjunct2]
    obtain updated w'
      where run: "updateUserApplication R0 (JStr ''u-1'') (JStr ''app-prod'') ?um w1 = (Inr updated, w')"
      and st: "map_of updated ''updated_at'' = Some (JStr (toISOString R0 (clock R0 (clock_reads w1))))"
      and named: "\<And>k v. map_of ?um k = Some v
                \<Longrightarrow> k \<notin> {''user_id'', ''application_id'', ''updated_at''}
                \<Longrightarrow> map_of updated k = Some v"
      and kept: "\<And>k. map_of ?um k = None \<Longrightarrow> k \<noteq> ''updated_at''
                \<Longrightarrow> map_of updated k = map_of sample_mapping k"
      by auto
    have "map_of updated ''account'' = Some (JStr ''acct-2'')"
      by (rule named) simp_all
    moreover have "map_of updated ''created_at'' = Some (JStr ''T4'')"
      using kept [of "''created_at''"] by (simp add: sample_mapping_def)
    ultimately show ?thesis using run st stamp by auto
  qed
  from 1 2 3 show ?thesis by (intro conjI)
qed

subsection \<open>The issuer URL is cached for five minutes\<close>

lemma cache_hit_clock_reads: "cache_hit (w\<lparr>clock_reads := n\<rparr>) now = cache_hit w now"
  by (simp add: cache_hit_def split: option.split)

lemma getIssuerUrl_hit:
  "cache_hit w (clock R (clock_reads w)) = Some url
   \<Longrightarrow> getIssuerUrl R w = (Inr url, w\<lparr>clock_reads := Suc (clock_reads w)\<rparr>)"
  by (simp add: getIssuerUrl_def bind_def date_now_def cache_hit_clock_reads)

lemma getIssuerUrl_miss_log:
  "cache_hit w (clock R (clock_reads w)) = None
   \<Longrightarrow> ssm_log (snd (getIssuerUrl R w))
       = ssm_log w @ [GetParameterCommand (ISSUER_URL_PARAM_NAME R) False]"
  by (simp add: getIssuerUrl_def bind_def date_now_def ssm_get_def Let_def
      cache_hit_clock_reads split: option.splits)

lemma getIssuerUrl_miss_fetch:
  "cache_hit w (clock R (clock_reads w)) = None
   \<Longrightarrow> ssm_fault R (length (ssm_log w)) = None
   \<Longrightarrow> ssm_params w (ISSUER_URL_PARAM_NAME R) = Some v
   \<Longrightarrow> getIssuerUrl R w =
        (Inr v, w\<lparr>clock_reads := Suc (clock_reads w),
                   ssm_log := ssm_log w @ [GetParameterCommand (ISSUER_URL_PARAM_NAME R) False],
                   cachedIssuerUrl := Some v,
                   cacheTimestamp := Some (clock R (clock_reads w))\<rparr>)"
  by (simp add: getIssuerUrl_def bind_def date_now_def ssm_get_def Let_def
      cache_hit_clock_reads)

text \<open>
  Claim C6, as amended. A call of \<open>getIssuerUrl\<close> reads the clock once. When a value
  that is not the empty string is cached with a timestamp that is not zero, and the clock
  is less than five minutes past that timestamp, the call returns the cached value and
  sends nothing to the parameter store. In every other case (nothing cached yet, an empty
  value, no timestamp or the timestamp zero, or five minutes or more since the timestamp)
  it sends one read to the parameter store, and when the store answers with a value it
  returns that value and caches it with the time just read.
\<close>

theorem issuer_url_cached_for_ttl:
  "(cachedIssuerUrl w = Some url \<and> url \<noteq> [] \<and> cacheTimestamp w = Some ts \<and> ts \<noteq> 0
      \<and> clock R (clock_reads w) - ts < 5 * 60 * 1000
    \<longrightarrow> getIssuerUrl R w = (Inr url, w\<lparr>clock_reads := Suc (clock_reads w)\<rparr>))
   \<and> (cachedIssuerUrl w = None \<or> cachedIssuerUrl w = Some [] \<or> cacheTimestamp w = None
        \<or> cacheTimestamp w = Some 0
        \<or> (\<exists>t. cacheTimestamp w = Some t \<and> 5 * 60 * 1000 \<le> clock R (clock_reads w) - t)
    \<longrightarrow> ssm_log (snd (getIssuerUrl R w))
          = ssm_log w @ [GetParameterCommand (ISSUER_URL_PARAM_NAME R) False]
        \<and> (ssm_fault R (length (ssm_log w)) = None
             \<and> ssm_params w (ISSUER_URL_PARAM_NAME R) = Some v
           \<longrightarrow> getIssuerUrl R w =
                 (Inr v, w\<lparr>clock_reads := Suc (clock_reads w),
                   ssm_log := ssm_log w @ [GetParameterCommand (ISSUER_URL_PARAM_NAME R) False],
                   cachedIssuerUrl := Some v,
                   cacheTimestamp := Some (clock R (clock_reads w))\<rparr>)))"
proof (intro conjI impI)
  assume "cachedIssuerUrl w = Some url \<and> url \<noteq> [] \<and> cacheTimestamp w = Some ts \<and> ts \<noteq> 0
      \<and> clock R (clock_reads w) - ts < 5 * 60 * 1000"
  then have "cache_hit w (clock R (clock_reads w)) = Some url"
    by (simp add: cache_hit_def CACHE_TTL_MS_def)
  then show "getIssuerUrl R w = (Inr url, w\<lparr>clock_reads := Suc (clock_reads w)\<rparr>)"
    by (rule getIssuerUrl_hit)
next
  assume "cachedIssuerUrl w = None \<or> cachedIssuerUrl w = Some [] \<or> cacheTimestamp w = None
        \<or> cacheTimestamp w = Some 0
        \<or> (\<exists>t. cacheTimestamp w = Some t \<and> 5 * 60 * 1000 \<le> clock R (clock_reads w) - t)"
  then have miss: "cache_hit w (clock R (clock_reads w)) = None"
    by (auto simp: cache_hit_def CACHE_TTL_MS_def split: option.splits)
  show "ssm_log (snd (getIssuerUrl R w))
          = ssm_log w @ [GetParameterCommand (ISSUER_URL_PARAM_NAME R) False]"
    using miss by (rule getIssuerUrl_miss_log)
  show "getIssuerUrl R w =
                 (Inr v, w\<lparr>clock_reads := Suc (clock_reads w),
                   ssm_log := ssm_log w @ [GetParameterCommand (ISSUER_URL_PARAM_NAME R) False],
                   cachedIssuerUrl := Some v,
                   cacheTimestamp := Some (clock R (clock_reads w))\<rparr>)"
    if "ssm_fault R (length (ssm_log w)) = None
             \<and> ssm_params w (ISSUER_URL_PARAM_NAME R) = Some v"
    using miss that by (simp add: getIssuerUrl_miss_fetch)
qed

text \<open>
  The claim as stated fails at the boundary: a value cached exactly five minutes ago is
  not "more than five minutes" old, yet the parameter store is read.
\<close>

theorem issuer_url_boundary_counterexample:
  "cachedIssuerUrl w_cached = Some ''https://issuer.example.com''
   \<and> cacheTimestamp w_cached = Some 1000
   \<and> clock R0 (clock_reads w_cached) - 1000 = 5 * 60 * 1000
   \<and> ssm_log w_cached = []
   \<and> ssm_log (snd (getIssuerUrl R0 w_cached)) = [GetParameterCommand ''/oidc/issuer-url'' False]"
  by (simp add: w_cached_def w0_def R0_def getIssuerUrl_def bind_def date_now_def cache_hit_def
      CACHE_TTL_MS_def ssm_get_def Let_def)

theorem issuer_url_cached_for_ttl_witness:
  "getIssuerUrl R0 (w_cached\<lparr>clock_reads := 299999\<rparr>)
     = (Inr ''https://issuer.example.com'', w_cached\<lparr>clock_reads := Suc 299999\<rparr>)
   \<and> getIssuerUrl R0 (w0\<lparr>ssm_params := [''/oidc/issuer-url'' \<mapsto> ''https://issuer.example.com'']\<rparr>)
     = (Inr ''https://issuer.example.com'',
        w0\<lparr>ssm_params := [''/oidc/issuer-url'' \<mapsto> ''https://issuer.example.com''],
           clock_reads := Suc 0,
           ssm_log := [GetParameterCommand ''/oidc/issuer-url'' False],
           cachedIssuerUrl := Some ''https://issuer.example.com'',
           cacheTimestamp := Some 1000\<rparr>)"
proof -
  let ?w = "w_cached\<lparr>clock_reads := 299999\<rparr>"
  let ?v = "w0\<lparr>ssm_params := [''/oidc/issuer-url'' \<mapsto> ''https://issuer.example.com'']\<rparr>"
  have a: "cachedIssuerUrl ?w = Some ''https://issuer.example.com''
      \<and> ''https://issuer.example.com'' \<noteq> [] \<and> cacheTimestamp ?w = Some 1000 \<and> (1000::int) \<noteq> 0
      \<and> clock R0 (clock_reads ?w) - 1000 < 5 * 60 * 1000"
    by (simp add: w_cached_def w0_def R0_def)
  have b: "cachedIssuerUrl ?v = None" "ssm_fault R0 (length (ssm_log ?v)) = None
      \<and> ssm_params ?v (ISSUER_URL_PARAM_NAME R0) = Some ''https://issuer.example.com''"
    by (simp_all add: w0_def R0_def)
  have c: "clock_reads ?v = 0" "ssm_log ?v = []" "clock R0 0 = 1000"
    "ISSUER_URL_PARAM_NAME R0 = ''/oidc/issuer-url''"
    by (simp_all add: w0_def R0_def)
  from issuer_url_cached_for_ttl [of ?w "''https://issuer.example.com''" 1000 R0, THEN conjunct1] a
  have 1: "getIssuerUrl R0 ?w = (Inr ''https://issuer.example.com'', ?w\<lparr>clock_reads := Suc (clock_reads ?w)\<rparr>)"
    by blast
  from issuer_url_cached_for_ttl [of ?v _ _ R0 "''https://issuer.example.com''", THEN conjunct2] b
  have 2: "getIssuerUrl R0 ?v =
                 (Inr ''https://issuer.example.com'', ?v\<lparr>clock_reads := Suc (clock_reads ?v),
                   ssm_log := ssm_log ?v @ [GetParameterCommand (ISSUER_URL_PARAM_NAME R0) False],
                   cachedIssuerUrl := Some ''https://issuer.example.com'',
                   cacheTimestamp := Some (clock R0 (clock_reads ?v))\<rparr>)"
    by blast
  from 1 2 show ?thesis by (simp add: c)
qed

end
